theory Spec2Isabelle
  imports Main "HOL-Library.Sublist"
begin

section \<open>Python values\<close>

text \<open>
  The program handles the values that \<^verbatim>\<open>json.loads\<close> and \<^verbatim>\<open>response.json()\<close>
  return: \<^verbatim>\<open>None\<close>, booleans, integers, floats, strings, lists and dicts.
  A dict is the association list of its items in insertion order (the keys of a dict
  are distinct; a lookup takes the item with that key). A string is the list of its
  characters. Floating-point values are kept abstract: the type \<open>'f\<close> stands for
  Python's \<^verbatim>\<open>float\<close>, and what the interpreter does with one is a parameter of
  the model (see \<open>python\<close> below).
\<close>

datatype 'f json =
    JNull
  | JBool bool
  | JInt int
  | JFloat 'f
  | JStr string
  | JArr "'f json list"
  | JObj "(string \<times> 'f json) list"

datatype exn =
    AttributeError
  | TypeError
  | KeyError
  | OverflowError
  | RecursionError
  | ValueError
  | JSONDecodeError
  | UnicodeDecodeError
  | RequestException string
  | OtherException string

text \<open>
  What the program takes from the interpreter and its libraries and does not define
  itself: \<^verbatim>\<open>json.loads\<close> (which raises \<^verbatim>\<open>JSONDecodeError\<close> on text it finds
  malformed, and may raise \<^verbatim>\<open>RecursionError\<close> or \<^verbatim>\<open>ValueError\<close> before it gets
  that far) and the arithmetic of floats (truth value, addition, conversion of an integer, which
  raises \<^verbatim>\<open>OverflowError\<close> when the integer is too large).
\<close>

record 'f python =
  loads :: "string \<Rightarrow> exn + 'f json"
  float_truthy :: "'f \<Rightarrow> bool"
  float_add :: "'f \<Rightarrow> 'f \<Rightarrow> 'f"
  float_of_int :: "int \<Rightarrow> 'f option"

text \<open>The truth value of an object, as \<^verbatim>\<open>if x:\<close> and \<^verbatim>\<open>not x\<close> test it.\<close>

fun truthy :: "'f python \<Rightarrow> 'f json \<Rightarrow> bool" where
  "truthy py JNull = False"
| "truthy py (JBool b) = b"
| "truthy py (JInt i) = (i \<noteq> 0)"
| "truthy py (JFloat f) = float_truthy py f"
| "truthy py (JStr s) = (s \<noteq> [])"
| "truthy py (JArr xs) = (xs \<noteq> [])"
| "truthy py (JObj kvs) = (kvs \<noteq> [])"

definition dict_get :: "(string \<times> 'f json) list \<Rightarrow> string \<Rightarrow> 'f json \<Rightarrow> 'f json" where
  "dict_get kvs k dflt = (case map_of kvs k of None \<Rightarrow> dflt | Some v \<Rightarrow> v)"

text \<open>
  \<^verbatim>\<open>d.get(k, default)\<close>; \<^verbatim>\<open>d.get(k)\<close> is \<open>py_get d k JNull\<close>. Only a dict has the
  method: on any other value the call raises \<^verbatim>\<open>AttributeError\<close>.
\<close>

fun py_get :: "'f json \<Rightarrow> string \<Rightarrow> 'f json \<Rightarrow> exn + 'f json" where
  "py_get (JObj kvs) k dflt = Inr (dict_get kvs k dflt)"
| "py_get _ k dflt = Inl AttributeError"

text \<open>
  \<^verbatim>\<open>d[k]\<close> with a string key: \<^verbatim>\<open>KeyError\<close> on a dict without the key,
  \<^verbatim>\<open>TypeError\<close> on a value that is not a dict.
\<close>

fun py_getitem :: "'f json \<Rightarrow> string \<Rightarrow> exn + 'f json" where
  "py_getitem (JObj kvs) k = (case map_of kvs k of None \<Rightarrow> Inl KeyError | Some v \<Rightarrow> Inr v)"
| "py_getitem _ k = Inl TypeError"

text \<open>
  The elements a \<^verbatim>\<open>for\<close> loop (or \<^verbatim>\<open>list.extend\<close>) takes from a value: the items
  of a list, the characters of a string, the keys of a dict; anything else is not
  iterable.
\<close>

fun py_iter :: "'f json \<Rightarrow> exn + 'f json list" where
  "py_iter (JArr xs) = Inr xs"
| "py_iter (JStr s) = Inr (map (\<lambda>c. JStr [c]) s)"
| "py_iter (JObj kvs) = Inr (map (\<lambda>kv. JStr (fst kv)) kvs)"
| "py_iter _ = Inl TypeError"

text \<open>
  \<^verbatim>\<open>a += b\<close> on the values a dict entry can hold: strings concatenate, a list is
  extended by the elements of any iterable, numbers (booleans count as 0 and 1) add,
  every other pair of operands raises \<^verbatim>\<open>TypeError\<close>.
\<close>

datatype 'f number = IntNum int | FloatNum 'f

fun number_of :: "'f json \<Rightarrow> 'f number option" where
  "number_of (JBool b) = Some (IntNum (if b then 1 else 0))"
| "number_of (JInt i) = Some (IntNum i)"
| "number_of (JFloat f) = Some (FloatNum f)"
| "number_of _ = None"

fun number_add :: "'f python \<Rightarrow> 'f number \<Rightarrow> 'f number \<Rightarrow> exn + 'f json" where
  "number_add py (IntNum a) (IntNum b) = Inr (JInt (a + b))"
| "number_add py (IntNum a) (FloatNum b) =
     (case float_of_int py a of
        None \<Rightarrow> Inl OverflowError
      | Some fa \<Rightarrow> Inr (JFloat (float_add py fa b)))"
| "number_add py (FloatNum a) (IntNum b) =
     (case float_of_int py b of
        None \<Rightarrow> Inl OverflowError
      | Some fb \<Rightarrow> Inr (JFloat (float_add py a fb)))"
| "number_add py (FloatNum a) (FloatNum b) = Inr (JFloat (float_add py a b))"

fun py_iadd :: "'f python \<Rightarrow> 'f json \<Rightarrow> 'f json \<Rightarrow> exn + 'f json" where
  "py_iadd py (JStr a) b = (case b of JStr s \<Rightarrow> Inr (JStr (a @ s)) | _ \<Rightarrow> Inl TypeError)"
| "py_iadd py (JArr a) b =
     (case py_iter b of Inl e \<Rightarrow> Inl e | Inr xs \<Rightarrow> Inr (JArr (a @ xs)))"
| "py_iadd py a b =
     (case number_of a of
        None \<Rightarrow> Inl TypeError
      | Some x \<Rightarrow>
          (case number_of b of
             None \<Rightarrow> Inl TypeError
           | Some y \<Rightarrow> number_add py x y))"

section \<open>The streaming event aggregation: \<^verbatim>\<open>process_sse_events\<close>\<close>

text \<open>
  The dicts the function builds for \<^verbatim>\<open>current_event\<close>. The keys \<^verbatim>\<open>type\<close>,
  \<^verbatim>\<open>content\<close> and \<^verbatim>\<open>role\<close> are always set; \<^verbatim>\<open>name\<close> and \<^verbatim>\<open>args\<close> are
  set for a function call only (\<open>None\<close> is the absent key, \<open>Some JNull\<close> the key
  holding \<^verbatim>\<open>None\<close>).
\<close>

record 'f event =
  ev_type :: string
  ev_content :: "'f json"
  ev_role :: string
  ev_name :: "'f json option"
  ev_args :: "'f json option"

definition function_call_event :: "'f json \<Rightarrow> 'f json \<Rightarrow> 'f json \<Rightarrow> 'f event" where
  "function_call_event fc nm ar =
     \<lparr>ev_type = ''function_call'', ev_content = fc, ev_role = ''assistant'',
      ev_name = Some nm, ev_args = Some ar\<rparr>"

definition video_list_event :: "'f json \<Rightarrow> 'f event" where
  "video_list_event videos =
     \<lparr>ev_type = ''video_list'', ev_content = videos, ev_role = ''assistant'',
      ev_name = None, ev_args = None\<rparr>"

definition text_event :: "'f json \<Rightarrow> 'f event" where
  "text_event txt =
     \<lparr>ev_type = ''text'', ev_content = txt, ev_role = ''assistant'',
      ev_name = None, ev_args = None\<rparr>"

text \<open>
  The body of \<^verbatim>\<open>for part in event_data['content']['parts']\<close> (lines 61 to 86): the
  new value of \<^verbatim>\<open>current_event\<close>, or the exception the part raises. A subscript
  \<^verbatim>\<open>part['functionCall']\<close> that follows a truthy \<^verbatim>\<open>part.get('functionCall')\<close> reads
  the same value and cannot fail, so the value is bound once.
\<close>

definition process_part ::
  "'f python \<Rightarrow> 'f event option \<Rightarrow> 'f json \<Rightarrow> exn + 'f event option" where
  "process_part py current_event part =
     (case py_get part ''functionCall'' JNull of
        Inl e \<Rightarrow> Inl e
      | Inr fc \<Rightarrow>
          if truthy py fc then
            (case py_get fc ''name'' JNull of
               Inl e \<Rightarrow> Inl e
             | Inr nm \<Rightarrow>
                 (case py_get fc ''args'' JNull of
                    Inl e \<Rightarrow> Inl e
                  | Inr ar \<Rightarrow> Inr (Some (function_call_event fc nm ar))))
          else
            (case py_get part ''functionResponse'' JNull of
               Inl e \<Rightarrow> Inl e
             | Inr response_data \<Rightarrow>
                 if truthy py response_data then
                   (case py_get response_data ''name'' JNull of
                      Inl e \<Rightarrow> Inl e
                    | Inr nm \<Rightarrow>
                        if nm = JStr ''search_youtube_videos'' then
                          (case py_get response_data ''response'' (JObj []) of
                             Inl e \<Rightarrow> Inl e
                           | Inr resp \<Rightarrow>
                               (case py_get resp ''videos'' (JArr []) of
                                  Inl e \<Rightarrow> Inl e
                                | Inr videos \<Rightarrow> Inr (Some (video_list_event videos))))
                        else Inr current_event)
                 else
                   (case py_get part ''text'' JNull of
                      Inl e \<Rightarrow> Inl e
                    | Inr txt \<Rightarrow>
                        if truthy py txt then
                          (case current_event of
                             None \<Rightarrow> Inr (Some (text_event txt))
                           | Some ev \<Rightarrow>
                               if ev_type ev = ''text'' then
                                 (case py_iadd py (ev_content ev) txt of
                                    Inl e \<Rightarrow> Inl e
                                  | Inr c \<Rightarrow> Inr (Some (ev\<lparr>ev_content := c\<rparr>)))
                               else Inr (Some (text_event txt)))
                        else Inr current_event)))"

fun process_parts ::
  "'f python \<Rightarrow> 'f event option \<Rightarrow> 'f json list \<Rightarrow> exn + 'f event option" where
  "process_parts py current_event [] = Inr current_event"
| "process_parts py current_event (part # parts) =
     (case process_part py current_event part of
        Inl e \<Rightarrow> Inl e
      | Inr cur \<Rightarrow> process_parts py cur parts)"

text \<open>The two local variables of \<^verbatim>\<open>process_sse_events\<close>.\<close>

record 'f state =
  formatted_events :: "'f event list"
  current_event :: "'f event option"

text \<open>
  Lines 59 to 90, for one decoded \<^verbatim>\<open>event_data\<close>: the parts are processed when
  \<^verbatim>\<open>content.parts\<close> is truthy, and only then is \<^verbatim>\<open>partial\<close> looked at.
\<close>

definition process_frame :: "'f python \<Rightarrow> 'f state \<Rightarrow> 'f json \<Rightarrow> exn + 'f state" where
  "process_frame py st event_data =
     (case py_get event_data ''content'' (JObj []) of
        Inl e \<Rightarrow> Inl e
      | Inr content \<Rightarrow>
          (case py_get content ''parts'' JNull of
             Inl e \<Rightarrow> Inl e
           | Inr parts \<Rightarrow>
               if truthy py parts then
                 (case py_iter parts of
                    Inl e \<Rightarrow> Inl e
                  | Inr ps \<Rightarrow>
                      (case process_parts py (current_event st) ps of
                         Inl e \<Rightarrow> Inl e
                       | Inr cur \<Rightarrow>
                           (case py_get event_data ''partial'' JNull of
                              Inl e \<Rightarrow> Inl e
                            | Inr partial \<Rightarrow>
                                (case cur of
                                   Some ev \<Rightarrow>
                                     if \<not> truthy py partial then
                                       Inr \<lparr>formatted_events = formatted_events st @ [ev],
                                            current_event = None\<rparr>
                                     else Inr (st\<lparr>current_event := cur\<rparr>)
                                 | None \<Rightarrow> Inr (st\<lparr>current_event := cur\<rparr>)))))
               else Inr st))"

text \<open>
  One item of \<^verbatim>\<open>response.iter_lines()\<close>: the bytes of a line, given by the text
  they decode to, or bytes that are not valid UTF-8 (never empty).
\<close>

datatype raw_line = Utf8 string | Undecodable

text \<open>
  The body of the \<^verbatim>\<open>for line\<close> loop (lines 54 to 93). \<^verbatim>\<open>json.loads\<close> is the
  only call in the inner \<^verbatim>\<open>try\<close> that raises \<^verbatim>\<open>JSONDecodeError\<close>, and it runs
  before anything is assigned, so the handler's \<^verbatim>\<open>continue\<close> leaves the state as
  it was. Every other exception leaves the loop.
\<close>

definition process_line :: "'f python \<Rightarrow> 'f state \<Rightarrow> raw_line \<Rightarrow> exn + 'f state" where
  "process_line py st line =
     (case line of
        Undecodable \<Rightarrow> Inl UnicodeDecodeError
      | Utf8 s \<Rightarrow>
          if s \<noteq> [] then
            if prefix ''data: '' s then
              (case loads py (drop 6 s) of
                 Inl e \<Rightarrow> if e = JSONDecodeError then Inr st else Inl e
               | Inr event_data \<Rightarrow> process_frame py st event_data)
            else Inr st
          else Inr st)"

text \<open>
  The response of the streaming request: the lines it yields, and the exception that
  ends the iteration when the transport fails (\<open>None\<close> when the stream ends normally).
\<close>

record response =
  iter_lines :: "raw_line list"
  iter_raises :: "exn option"

text \<open>
  The loop under the outer \<^verbatim>\<open>try\<close>: the \<^verbatim>\<open>formatted_events\<close> when the loop is
  left, and the exception that left it, if any. \<^verbatim>\<open>formatted_events\<close> is appended to
  by the last statement of an iteration only, so an iteration that raises leaves the
  list as it found it.
\<close>

fun run_lines ::
  "'f python \<Rightarrow> 'f state \<Rightarrow> raw_line list \<Rightarrow> exn option \<Rightarrow> 'f event list \<times> exn option" where
  "run_lines py st [] fin = (formatted_events st, fin)"
| "run_lines py st (line # rest) fin =
     (case process_line py st line of
        Inl e \<Rightarrow> (formatted_events st, Some e)
      | Inr st' \<Rightarrow> run_lines py st' rest fin)"

text \<open>The messages shown by \<^verbatim>\<open>st.error\<close>, by the call that shows them.\<close>

datatype notice = ApiError exn | SseError exn

record 'f outcome =
  events :: "'f event list"
  notices :: "notice list"

definition initial_state :: "'f state" where
  "initial_state = \<lparr>formatted_events = [], current_event = None\<rparr>"

definition process_sse_events :: "'f python \<Rightarrow> response \<Rightarrow> 'f outcome" where
  "process_sse_events py resp =
     (case run_lines py initial_state (iter_lines resp) (iter_raises resp) of
        (evs, None) \<Rightarrow> \<lparr>events = evs, notices = []\<rparr>
      | (evs, Some e) \<Rightarrow> \<lparr>events = evs, notices = [SseError e]\<rparr>)"

section \<open>Requests: \<^verbatim>\<open>make_api_request\<close> and \<^verbatim>\<open>send_message\<close>\<close>

text \<open>
  What the \<^verbatim>\<open>try\<close> block of \<^verbatim>\<open>make_api_request\<close> comes to: the request (or
  \<^verbatim>\<open>raise_for_status\<close>) raises a \<^verbatim>\<open>RequestException\<close> with a message, or the
  block returns a value (the response itself when \<^verbatim>\<open>stream\<close> is set, its decoded
  body otherwise).
\<close>

datatype 'r http = HttpError string | HttpOk 'r

definition make_api_request :: "'r http \<Rightarrow> 'r option \<times> notice list" where
  "make_api_request h =
     (case h of
        HttpError msg \<Rightarrow> (None, [ApiError (RequestException msg)])
      | HttpOk r \<Rightarrow> (Some r, []))"

definition send_message_data ::
  "'f json \<Rightarrow> 'f json \<Rightarrow> 'f json \<Rightarrow> string \<Rightarrow> 'f json" where
  "send_message_data app_name user_id session_id message =
     JObj [(''app_name'', app_name),
           (''user_id'', user_id),
           (''session_id'', session_id),
           (''new_message'',
              JObj [(''parts'', JArr [JObj [(''text'', JStr message)]]),
                    (''role'', JStr ''user'')]),
           (''streaming'', JBool True)]"

text \<open>
  \<^verbatim>\<open>send_message\<close>; \<open>post\<close> is the backend: what the streaming request comes to
  for a given body. A response that passed \<^verbatim>\<open>raise_for_status\<close> is truthy.
\<close>

definition send_message ::
  "'f python \<Rightarrow> ('f json \<Rightarrow> response http) \<Rightarrow> 'f json \<Rightarrow> 'f json \<Rightarrow> 'f json \<Rightarrow> string
     \<Rightarrow> 'f outcome" where
  "send_message py post app_name user_id session_id message =
     (case make_api_request (post (send_message_data app_name user_id session_id message)) of
        (None, ns) \<Rightarrow> \<lparr>events = [], notices = ns\<rparr>
      | (Some resp, ns) \<Rightarrow>
          (let out = process_sse_events py resp
           in \<lparr>events = events out, notices = ns @ notices out\<rparr>))"

section \<open>Reading the current session\<close>

text \<open>
  The arguments of the call \<^verbatim>\<open>send_message(session['appName'], session['userId'],
  session['id'], prompt)\<close> (line 338), evaluated left to right; an exception here is not
  caught.
\<close>

definition send_message_args :: "'f json \<Rightarrow> exn + ('f json \<times> 'f json \<times> 'f json)" where
  "send_message_args session =
     (case py_getitem session ''appName'' of
        Inl e \<Rightarrow> Inl e
      | Inr app_name \<Rightarrow>
          (case py_getitem session ''userId'' of
             Inl e \<Rightarrow> Inl e
           | Inr user_id \<Rightarrow>
               (case py_getitem session ''id'' of
                  Inl e \<Rightarrow> Inl e
                | Inr session_id \<Rightarrow> Inr (app_name, user_id, session_id))))"

text \<open>
  The session header (lines 275 to 283), drawn at the top of the chat section: the
  subscript \<^verbatim>\<open>session['id']\<close>, then \<^verbatim>\<open>session.get('app_name')\<close>,
  \<^verbatim>\<open>session.get('user_id')\<close> and the time of the last update.
  \<open>format_time\<close> is the library: \<^verbatim>\<open>datetime.fromtimestamp(x).strftime(...)\<close> on
  a number; on a value that is not a number \<^verbatim>\<open>fromtimestamp\<close> raises
  \<^verbatim>\<open>TypeError\<close>.
\<close>

record 'f header =
  shown_id :: "'f json"
  shown_app :: "'f json"
  shown_user :: "'f json"
  shown_last_update :: string

definition session_header ::
  "('f number \<Rightarrow> exn + string) \<Rightarrow> 'f json \<Rightarrow> exn + 'f header" where
  "session_header format_time session =
     (case py_getitem session ''id'' of
        Inl e \<Rightarrow> Inl e
      | Inr session_id \<Rightarrow>
          (case py_get session ''app_name'' JNull of
             Inl e \<Rightarrow> Inl e
           | Inr app \<Rightarrow>
               (case py_get session ''user_id'' JNull of
                  Inl e \<Rightarrow> Inl e
                | Inr user \<Rightarrow>
                    (case py_get session ''last_update_time'' (JInt 0) of
                       Inl e \<Rightarrow> Inl e
                     | Inr t \<Rightarrow>
                         (case number_of t of
                            None \<Rightarrow> Inl TypeError
                          | Some n \<Rightarrow>
                              (case format_time n of
                                 Inl e \<Rightarrow> Inl e
                               | Inr last_update \<Rightarrow>
                                   Inr \<lparr>shown_id = session_id, shown_app = app,
                                        shown_user = user,
                                        shown_last_update = last_update\<rparr>))))))"

text \<open>
  The chat section of the script (lines 271 to 338) in a run where
  \<^verbatim>\<open>st.session_state.messages\<close> is empty, as \<^verbatim>\<open>create_session\<close> leaves it, so
  that the loop of lines 288 to 321 has no message to draw (the sidebar above, lines 229
  to 268, does not read the session). The section is entered when the current session
  is truthy; the header is drawn first; when a prompt has been entered, the arguments of
  line 338 are evaluated and \<^verbatim>\<open>send_message\<close> posts its \<^verbatim>\<open>data\<close>. The result is
  the body that is posted (\<open>None\<close> when nothing is posted), or the exception that ends
  the run before; no exception is caught here.
\<close>

definition chat_request ::
  "'f python \<Rightarrow> ('f number \<Rightarrow> exn + string) \<Rightarrow> 'f json \<Rightarrow> string
     \<Rightarrow> exn + 'f json option" where
  "chat_request py format_time session prompt =
     (if truthy py session then
        (case session_header format_time session of
           Inl e \<Rightarrow> Inl e
         | Inr shown \<Rightarrow>
             if prompt \<noteq> [] then
               (case send_message_args session of
                  Inl e \<Rightarrow> Inl e
                | Inr (app_name, user_id, session_id) \<Rightarrow>
                    Inr (Some (send_message_data app_name user_id session_id prompt)))
             else Inr None)
      else Inr None)"

section \<open>Historical events: \<^verbatim>\<open>load_session\<close>\<close>

record 'f message =
  msg_type :: string
  msg_content :: "'f json"
  msg_role :: "'f json"
  msg_timestamp :: "'f json"

text \<open>
  The body of \<^verbatim>\<open>for part in event['content']['parts']\<close> (lines 162 to 177): the
  messages the part appends, none or one.
\<close>

definition load_part :: "'f python \<Rightarrow> 'f json \<Rightarrow> 'f json \<Rightarrow> exn + 'f message list" where
  "load_part py event part =
     (case py_get part ''function_response'' JNull of
        Inl e \<Rightarrow> Inl e
      | Inr fr \<Rightarrow>
          if truthy py fr then
            (case py_get fr ''response'' (JObj []) of
               Inl e \<Rightarrow> Inl e
             | Inr resp \<Rightarrow>
                 (case py_get resp ''videos'' JNull of
                    Inl e \<Rightarrow> Inl e
                  | Inr videos \<Rightarrow>
                      if truthy py videos then
                        (case py_get event ''author'' (JStr ''assistant'') of
                           Inl e \<Rightarrow> Inl e
                         | Inr author \<Rightarrow>
                             (case py_get event ''timestamp'' (JInt 0) of
                                Inl e \<Rightarrow> Inl e
                              | Inr ts \<Rightarrow>
                                  Inr [\<lparr>msg_type = ''video_list'', msg_content = videos,
                                        msg_role = author, msg_timestamp = ts\<rparr>]))
                      else Inr []))
          else
            (case py_get part ''text'' JNull of
               Inl e \<Rightarrow> Inl e
             | Inr txt \<Rightarrow>
                 if truthy py txt then
                   (case py_get event ''author'' (JStr ''unknown'') of
                      Inl e \<Rightarrow> Inl e
                    | Inr author \<Rightarrow>
                        (case py_get event ''timestamp'' (JInt 0) of
                           Inl e \<Rightarrow> Inl e
                         | Inr ts \<Rightarrow>
                             Inr [\<lparr>msg_type = ''text'', msg_content = txt,
                                   msg_role = author, msg_timestamp = ts\<rparr>]))
                 else Inr []))"

fun load_parts :: "'f python \<Rightarrow> 'f json \<Rightarrow> 'f json list \<Rightarrow> exn + 'f message list" where
  "load_parts py event [] = Inr []"
| "load_parts py event (part # parts) =
     (case load_part py event part of
        Inl e \<Rightarrow> Inl e
      | Inr ms \<Rightarrow>
          (case load_parts py event parts of
             Inl e \<Rightarrow> Inl e
           | Inr ms' \<Rightarrow> Inr (ms @ ms')))"

text \<open>The body of \<^verbatim>\<open>for event in session.get('events', [])\<close> (lines 160 to 177).\<close>

definition load_event :: "'f python \<Rightarrow> 'f json \<Rightarrow> exn + 'f message list" where
  "load_event py event =
     (case py_get event ''content'' JNull of
        Inl e \<Rightarrow> Inl e
      | Inr c \<Rightarrow>
          if truthy py c then
            (case py_get event ''content'' (JObj []) of
               Inl e \<Rightarrow> Inl e
             | Inr content \<Rightarrow>
                 (case py_get content ''parts'' JNull of
                    Inl e \<Rightarrow> Inl e
                  | Inr parts \<Rightarrow>
                      if truthy py parts then
                        (case py_iter parts of
                           Inl e \<Rightarrow> Inl e
                         | Inr ps \<Rightarrow> load_parts py event ps)
                      else Inr []))
          else Inr [])"

fun load_events :: "'f python \<Rightarrow> 'f json list \<Rightarrow> exn + 'f message list" where
  "load_events py [] = Inr []"
| "load_events py (event # rest) =
     (case load_event py event of
        Inl e \<Rightarrow> Inl e
      | Inr ms \<Rightarrow>
          (case load_events py rest of
             Inl e \<Rightarrow> Inl e
           | Inr ms' \<Rightarrow> Inr (ms @ ms')))"

text \<open>
  \<^verbatim>\<open>load_session\<close>, as the new value of \<^verbatim>\<open>st.session_state.messages\<close>:
  \<open>fetched\<close> is what \<^verbatim>\<open>make_api_request\<close> returned and \<open>messages\<close> the list
  before the call, kept when the session is falsy. An exception in the loops is not
  caught.
\<close>

definition load_session ::
  "'f python \<Rightarrow> 'f json option \<Rightarrow> 'f message list \<Rightarrow> exn + 'f message list" where
  "load_session py fetched messages =
     (case fetched of
        None \<Rightarrow> Inr messages
      | Some session \<Rightarrow>
          if truthy py session then
            (case py_get session ''events'' (JArr []) of
               Inl e \<Rightarrow> Inl e
             | Inr evs \<Rightarrow>
                 (case py_iter evs of
                    Inl e \<Rightarrow> Inl e
                  | Inr es \<Rightarrow> load_events py es))
          else Inr messages)"

section \<open>Frames of the wire schema\<close>

text \<open>The line that carries a payload.\<close>

definition data_line :: "string \<Rightarrow> raw_line" where
  "data_line payload = Utf8 (''data: '' @ payload)"

text \<open>
  The frames that the loop of \<^verbatim>\<open>process_sse_events\<close> decodes from a list of lines,
  when no line raises: empty lines, lines without the prefix \<^verbatim>\<open>data: \<close> and lines
  whose payload \<^verbatim>\<open>json.loads\<close> rejects contribute nothing.
\<close>

fun decoded :: "'f python \<Rightarrow> raw_line list \<Rightarrow> 'f json list option" where
  "decoded py [] = Some []"
| "decoded py (Undecodable # rest) = None"
| "decoded py (Utf8 s # rest) =
     (if s \<noteq> [] \<and> prefix ''data: '' s then
        (case loads py (drop 6 s) of
           Inl e \<Rightarrow> if e = JSONDecodeError then decoded py rest else None
         | Inr event_data \<Rightarrow> map_option ((#) event_data) (decoded py rest))
      else decoded py rest)"

text \<open>The loop of \<open>run_lines\<close>, on frames that are decoded already.\<close>

fun run_frames ::
  "'f python \<Rightarrow> 'f state \<Rightarrow> 'f json list \<Rightarrow> exn option \<Rightarrow> 'f event list \<times> exn option" where
  "run_frames py st [] fin = (formatted_events st, fin)"
| "run_frames py st (f # fs) fin =
     (case process_frame py st f of
        Inl e \<Rightarrow> (formatted_events st, Some e)
      | Inr st' \<Rightarrow> run_frames py st' fs fin)"

text \<open>The list \<^verbatim>\<open>content.parts\<close> of a frame, and the truth value of its \<^verbatim>\<open>partial\<close>.\<close>

definition frame_parts :: "'f json \<Rightarrow> 'f json list option" where
  "frame_parts f =
     (case f of
        JObj fkv \<Rightarrow>
          (case dict_get fkv ''content'' (JObj []) of
             JObj ckv \<Rightarrow>
               (case dict_get ckv ''parts'' JNull of
                  JArr ps \<Rightarrow> Some ps
                | _ \<Rightarrow> None)
           | _ \<Rightarrow> None)
      | _ \<Rightarrow> None)"

definition frame_partial :: "'f python \<Rightarrow> 'f json \<Rightarrow> bool" where
  "frame_partial py f =
     (case f of JObj fkv \<Rightarrow> truthy py (dict_get fkv ''partial'' JNull) | _ \<Rightarrow> False)"

text \<open>
  A frame without parts: \<^verbatim>\<open>content\<close> is absent, or it is a dict in which
  \<^verbatim>\<open>parts\<close> is absent or empty.
\<close>

definition no_parts :: "'f python \<Rightarrow> 'f json \<Rightarrow> bool" where
  "no_parts py f =
     (case f of
        JObj fkv \<Rightarrow>
          (case dict_get fkv ''content'' (JObj []) of
             JObj ckv \<Rightarrow> \<not> truthy py (dict_get ckv ''parts'' JNull)
           | _ \<Rightarrow> False)
      | _ \<Rightarrow> False)"

text \<open>
  The three kinds of part. A text part carries the string \<open>t\<close> under \<^verbatim>\<open>text\<close>
  and nothing under the other two keys; a function-call part carries a dict with at
  least one entry under \<^verbatim>\<open>functionCall\<close>; a video-response part carries, under
  \<^verbatim>\<open>functionResponse\<close>, a dict named \<^verbatim>\<open>search_youtube_videos\<close> whose
  \<^verbatim>\<open>response\<close> is absent or a dict, \<open>videos\<close> being what it holds under
  \<^verbatim>\<open>videos\<close> and the empty list when it holds nothing.
\<close>

definition is_text_part :: "'f python \<Rightarrow> 'f json \<Rightarrow> string \<Rightarrow> bool" where
  "is_text_part py part t =
     (case part of
        JObj pkv \<Rightarrow>
          \<not> truthy py (dict_get pkv ''functionCall'' JNull) \<and>
          \<not> truthy py (dict_get pkv ''functionResponse'' JNull) \<and>
          dict_get pkv ''text'' JNull = JStr t
      | _ \<Rightarrow> False)"

definition is_call_part :: "'f json \<Rightarrow> (string \<times> 'f json) list \<Rightarrow> bool" where
  "is_call_part part fc =
     (case part of
        JObj pkv \<Rightarrow> dict_get pkv ''functionCall'' JNull = JObj fc \<and> fc \<noteq> []
      | _ \<Rightarrow> False)"


text \<open>A frame whose only part is a text part, or a function-call part.\<close>

definition is_text_frame :: "'f python \<Rightarrow> bool \<Rightarrow> 'f json \<Rightarrow> string \<Rightarrow> bool" where
  "is_text_frame py partial f t =
     (case frame_parts f of
        Some [part] \<Rightarrow> is_text_part py part t \<and> frame_partial py f = partial
      | _ \<Rightarrow> False)"

definition is_call_frame ::
  "'f python \<Rightarrow> bool \<Rightarrow> 'f json \<Rightarrow> (string \<times> 'f json) list \<Rightarrow> bool" where
  "is_call_frame py partial f fc =
     (case frame_parts f of
        Some [part] \<Rightarrow> is_call_part part fc \<and> frame_partial py f = partial
      | _ \<Rightarrow> False)"

text \<open>
  What lines 88 to 90 make of the state once the parts of a frame have left
  \<open>cur\<close> in \<^verbatim>\<open>current_event\<close>.
\<close>

definition flush :: "'f state \<Rightarrow> 'f event option \<Rightarrow> bool \<Rightarrow> 'f state" where
  "flush st cur partial =
     (case cur of
        Some ev \<Rightarrow>
          if partial then st\<lparr>current_event := cur\<rparr>
          else \<lparr>formatted_events = formatted_events st @ [ev], current_event = None\<rparr>
      | None \<Rightarrow> st\<lparr>current_event := None\<rparr>)"

text \<open>The builder that holds the text \<open>acc\<close>: none as long as no text has arrived.\<close>

definition text_builder :: "string \<Rightarrow> 'f event option" where
  "text_builder acc = (if acc = [] then None else Some (text_event (JStr acc)))"

text \<open>
  A line that cannot complete an event: it raises, it is skipped, or it carries a
  frame whose \<^verbatim>\<open>partial\<close> is truthy.
\<close>

definition keeps_open :: "'f python \<Rightarrow> raw_line \<Rightarrow> bool" where
  "keeps_open py line =
     (case line of
        Undecodable \<Rightarrow> True
      | Utf8 s \<Rightarrow>
          if s \<noteq> [] \<and> prefix ''data: '' s then
            (case loads py (drop 6 s) of
               Inl e \<Rightarrow> True
             | Inr f \<Rightarrow> frame_partial py f)
          else True)"

text \<open>The \<^verbatim>\<open>author\<close> of a stored event, if the key is there.\<close>

definition event_author :: "'f json \<Rightarrow> 'f json option" where
  "event_author event = (case event of JObj ekv \<Rightarrow> map_of ekv ''author'' | _ \<Rightarrow> None)"

text \<open>
  What a stored part holds under \<^verbatim>\<open>function_response.response.videos\<close>
  (\<^verbatim>\<open>None\<close> when there is no such entry).
\<close>

definition stored_videos :: "'f json \<Rightarrow> 'f json" where
  "stored_videos part =
     (case part of
        JObj pkv \<Rightarrow>
          (case dict_get pkv ''function_response'' JNull of
             JObj rkv \<Rightarrow>
               (case dict_get rkv ''response'' (JObj []) of
                  JObj skv \<Rightarrow> dict_get skv ''videos'' JNull
                | _ \<Rightarrow> JNull)
           | _ \<Rightarrow> JNull)
      | _ \<Rightarrow> JNull)"

text \<open>
  The parts of a stored event, and the video-list message that \<^verbatim>\<open>load_session\<close>
  builds from a part of an event.
\<close>

definition event_parts :: "'f json \<Rightarrow> 'f json list" where
  "event_parts event = (case frame_parts event of Some ps \<Rightarrow> ps | None \<Rightarrow> [])"

definition video_message :: "'f json \<Rightarrow> 'f json \<Rightarrow> 'f message" where
  "video_message event part =
     \<lparr>msg_type = ''video_list'',
      msg_content = stored_videos part,
      msg_role = (case event_author event of Some a \<Rightarrow> a | None \<Rightarrow> JStr ''assistant''),
      msg_timestamp =
        (case event of JObj ekv \<Rightarrow> dict_get ekv ''timestamp'' (JInt 0) | _ \<Rightarrow> JInt 0)\<rparr>"

section \<open>A sample environment\<close>

text \<open>
  A decoder that knows a handful of payloads and rejects every other text, for the
  examples below. No float occurs in them.
\<close>

definition text_frame :: "string \<Rightarrow> bool \<Rightarrow> unit json" where
  "text_frame t partial =
     JObj [(''content'', JObj [(''parts'', JArr [JObj [(''text'', JStr t)]])]),
           (''partial'', JBool partial)]"

definition sample_call :: "(string \<times> unit json) list" where
  "sample_call =
     [(''name'', JStr ''search_youtube_videos''),
      (''args'', JObj [(''query'', JStr ''cats'')])]"

definition call_frame :: "unit json" where
  "call_frame =
     JObj [(''content'', JObj [(''parts'', JArr [JObj [(''functionCall'', JObj sample_call)]])]),
           (''partial'', JBool True)]"

definition videos_frame :: "unit json" where
  "videos_frame =
     JObj [(''content'',
             JObj [(''parts'',
                     JArr [JObj [(''functionResponse'',
                                   JObj [(''name'', JStr ''search_youtube_videos''),
                                         (''response'', JObj [])])]])])]"

definition empty_frame :: "unit json" where
  "empty_frame = JObj [(''content'', JObj [(''parts'', JArr [])]), (''partial'', JBool False)]"

definition sample_payloads :: "(string \<times> unit json) list" where
  \<open>sample_payloads =
     [(''{"content":{"parts":[{"text":"hi"}]},"partial":false}'', text_frame ''hi'' False),
      (''{"content":{"parts":[{"text":"Sea"}]},"partial":true}'', text_frame ''Sea'' True),
      (''{"content":{"parts":[{"text":"rch results:"}]},"partial":false}'',
         text_frame ''rch results:'' False),
      (''{"content":{"parts":[{"text":""}]},"partial":true}'', text_frame [] True),
      (''{"content":{"parts":[{"text":""}]},"partial":false}'', text_frame [] False),
      (''{"content":{"parts":[{"functionCall":{"name":"search_youtube_videos","args":{"query":"cats"}}}]},"partial":true}'',
         call_frame),
      (''{"content":{"parts":[{"functionResponse":{"name":"search_youtube_videos","response":{}}}]}}'',
         videos_frame),
      (''{"content":{"parts":[]},"partial":false}'', empty_frame)]\<close>

definition sample_python :: "unit python" where
  "sample_python =
     \<lparr>loads = (\<lambda>s. case map_of sample_payloads s of
                       None \<Rightarrow> Inl JSONDecodeError
                     | Some v \<Rightarrow> Inr v),
      float_truthy = (\<lambda>f. True),
      float_add = (\<lambda>a b. ()),
      float_of_int = (\<lambda>i. Some ())\<rparr>"

definition search_lines :: "raw_line list" where
  \<open>search_lines =
     [data_line ''{"content":{"parts":[{"text":"Sea"}]},"partial":true}'',
      Utf8 [],
      data_line ''{"content":{"parts":[{"text":"rch results:"}]},"partial":false}'']\<close>

definition empty_text_lines :: "raw_line list" where
  \<open>empty_text_lines =
     [data_line ''{"content":{"parts":[{"text":""}]},"partial":true}'',
      data_line ''{"content":{"parts":[{"text":""}]},"partial":false}'']\<close>

definition call_then_text_lines :: "raw_line list" where
  \<open>call_then_text_lines =
     [data_line ''{"content":{"parts":[{"functionCall":{"name":"search_youtube_videos","args":{"query":"cats"}}}]},"partial":true}'',
      data_line ''{"content":{"parts":[{"text":"hi"}]},"partial":false}'']\<close>

definition call_then_empty_text_lines :: "raw_line list" where
  \<open>call_then_empty_text_lines =
     [data_line ''{"content":{"parts":[{"functionCall":{"name":"search_youtube_videos","args":{"query":"cats"}}}]},"partial":true}'',
      data_line ''{"content":{"parts":[{"text":""}]},"partial":false}'']\<close>

definition broken_then_hi_lines :: "raw_line list" where
  \<open>broken_then_hi_lines =
     [data_line ''{bad'',
      data_line ''{"content":{"parts":[{"text":"hi"}]},"partial":false}'']\<close>

definition hi_then_open_lines :: "raw_line list" where
  \<open>hi_then_open_lines =
     [data_line ''{"content":{"parts":[{"text":"hi"}]},"partial":false}''] @
     [data_line ''{"content":{"parts":[{"text":"Sea"}]},"partial":true}'']\<close>

definition open_state :: "unit state" where
  "open_state = \<lparr>formatted_events = [], current_event = Some (text_event (JStr ''Sea''))\<rparr>"


definition empty_payload :: string where
  \<open>empty_payload = ''{"content":{"parts":[]},"partial":false}''\<close>

text \<open>The invariant of the loop for the role of the events.\<close>

definition assistant_builder :: "'f event option \<Rightarrow> bool" where
  "assistant_builder cur = (case cur of None \<Rightarrow> True | Some ev \<Rightarrow> ev_role ev = ''assistant'')"

definition all_assistant :: "'f state \<Rightarrow> bool" where
  "all_assistant st =
     (list_all (\<lambda>ev. ev_role ev = ''assistant'') (formatted_events st) \<and>
      assistant_builder (current_event st))"

text \<open>A backend whose stream breaks after one complete text frame.\<close>

definition broken_response :: response where
  \<open>broken_response =
     \<lparr>iter_lines = [data_line ''{"content":{"parts":[{"text":"hi"}]},"partial":false}''],
      iter_raises = Some (RequestException ''Connection broken'')\<rparr>\<close>


definition refusing_backend :: "unit json \<Rightarrow> response http" where
  "refusing_backend data = HttpError ''Connection refused''"

text \<open>
  Two sessions that differ in the spelling of the user key only, and the clock of the
  examples.
\<close>

definition snake_items :: "(string \<times> unit json) list" where
  "snake_items =
     [(''id'', JStr ''s1''), (''app_name'', JStr ''agent''), (''appName'', JStr ''agent''),
      (''user_id'', JStr ''user123'')]"

definition camel_items :: "(string \<times> unit json) list" where
  "camel_items =
     [(''id'', JStr ''s1''), (''app_name'', JStr ''agent''), (''appName'', JStr ''agent''),
      (''userId'', JStr ''user123'')]"

definition snake_session :: "unit json" where
  "snake_session = JObj snake_items"

definition camel_session :: "unit json" where
  "camel_session = JObj camel_items"

definition epoch_clock :: "unit number \<Rightarrow> exn + string" where
  "epoch_clock n = Inr ''1970-01-01 00:00''"

text \<open>
  A payload of 100000 opening brackets, on which \<^verbatim>\<open>json.loads\<close> raises
  \<^verbatim>\<open>RecursionError\<close>, and the sample decoder extended by it.
\<close>

definition deep_payload :: string where
  "deep_payload = replicate 100000 (CHR ''['')"

definition deep_python :: "unit python" where
  "deep_python =
     sample_python
       \<lparr>loads := (\<lambda>s. if s = deep_payload then Inl RecursionError else loads sample_python s)\<rparr>"

definition deep_lines :: "raw_line list" where
  \<open>deep_lines =
     [data_line deep_payload,
      data_line ''{"content":{"parts":[{"text":"hi"}]},"partial":false}'']\<close>

text \<open>A stored event without author, with a video part and a text part.\<close>

definition sample_videos :: "unit json" where
  "sample_videos = JArr [JObj [(''videoId'', JStr ''abc''), (''title'', JStr ''Cats'')]]"

definition videos_part :: "'f json \<Rightarrow> 'f json \<Rightarrow> 'f json" where
  "videos_part nm videos =
     JObj [(''function_response'',
             JObj [(''name'', nm), (''response'', JObj [(''videos'', videos)])])]"

definition authored_event :: "unit json" where
  "authored_event =
     JObj [(''content'', JObj [(''parts'', JArr [JObj [(''text'', JStr ''find cats'')]])]),
           (''author'', JStr ''user'')]"

definition stored_event :: "unit json" where
  "stored_event =
     JObj [(''content'',
             JObj [(''parts'',
                     JArr [videos_part (JStr ''other_tool'') sample_videos,
                           JObj [(''text'', JStr ''hello'')]])]),
           (''timestamp'', JInt 7)]"

text \<open>
  A stored event whose response has no video, and a session of three events.
\<close>

definition no_videos_event :: "unit json" where
  "no_videos_event =
     JObj [(''content'',
             JObj [(''parts'', JArr [videos_part (JStr ''search_youtube_videos'') (JArr [])])]),
           (''author'', JStr ''agent'')]"

definition stored_session :: "unit json" where
  "stored_session =
     JObj [(''id'', JStr ''s1''),
           (''events'', JArr [stored_event, no_videos_event, authored_event])]"






section \<open>The decoded frames determine the run\<close>

lemma run_lines_decoded:
  "decoded py ls = Some fs \<Longrightarrow> run_lines py st ls fin = run_frames py st fs fin"
proof (induction ls arbitrary: fs st)
  case Nil
  then show ?case by simp
next
  case (Cons l ls)
  show ?case
  proof (cases l)
    case Undecodable
    with Cons.prems show ?thesis by simp
  next
    case (Utf8 s)
    show ?thesis
    proof (cases "s \<noteq> [] \<and> prefix ''data: '' s")
      case False
      with Cons Utf8 show ?thesis by (auto simp: process_line_def)
    next
      case True
      show ?thesis
      proof (cases "loads py (drop 6 s)")
        case (Inl e)
        with Cons True Utf8 show ?thesis
          by (auto simp: process_line_def split: if_splits)
      next
        case (Inr ed)
        with Cons.prems True Utf8 obtain fs' where fs': "decoded py ls = Some fs'" "fs = ed # fs'"
          by auto
        show ?thesis
          using Inr True Utf8 fs' Cons.IH[OF fs'(1)]
          by (simp add: process_line_def split: sum.splits)
      qed
    qed
  qed
qed

lemma process_frame_parts:
  assumes "frame_parts f = Some ps" and "ps \<noteq> []"
  shows "process_frame py st f =
           (case process_parts py (current_event st) ps of
              Inl e \<Rightarrow> Inl e
            | Inr cur \<Rightarrow> Inr (flush st cur (frame_partial py f)))"
  using assms
  by (auto simp: frame_parts_def frame_partial_def process_frame_def flush_def
           split: json.splits sum.splits option.splits)

section \<open>Text accumulation\<close>

lemma process_part_text:
  assumes "is_text_part py part t"
  shows "process_part py (text_builder acc) part = Inr (text_builder (acc @ t))"
  using assms
  by (auto simp: is_text_part_def process_part_def text_builder_def text_event_def
           split: json.splits)

lemma process_frame_text:
  assumes "is_text_frame py partial f t"
  shows "process_frame py \<lparr>formatted_events = out, current_event = text_builder acc\<rparr> f =
           Inr (flush \<lparr>formatted_events = out, current_event = text_builder acc\<rparr>
                  (text_builder (acc @ t)) partial)"
proof -
  from assms obtain part where p: "frame_parts f = Some [part]" "is_text_part py part t"
      "frame_partial py f = partial"
    by (auto simp: is_text_frame_def split: option.splits list.splits)
  show ?thesis
    by (simp add: process_frame_parts[OF p(1)] process_part_text[OF p(2)] p(3))
qed

lemma run_frames_text_partial:
  assumes "list_all2 (is_text_frame py True) fs ts"
  shows "run_frames py \<lparr>formatted_events = out, current_event = text_builder acc\<rparr> (fs @ rest) fin =
         run_frames py \<lparr>formatted_events = out, current_event = text_builder (acc @ concat ts)\<rparr>
           rest fin"
  using assms
proof (induction fs ts arbitrary: acc rule: list_all2_induct)
  case Nil
  then show ?case by simp
next
  case (Cons f fs t ts)
  have "flush \<lparr>formatted_events = out, current_event = text_builder acc\<rparr>
          (text_builder (acc @ t)) True
        = \<lparr>formatted_events = out, current_event = text_builder (acc @ t)\<rparr>"
    by (simp add: flush_def text_builder_def)
  with Cons show ?case
    by (simp add: process_frame_text)
qed

text \<open>
  Claim C1 (amended). A stream whose frames each carry one text part, all with
  \<^verbatim>\<open>partial\<close> true but the last, whose \<^verbatim>\<open>partial\<close> is false: when at least one of
  the texts is not empty, \<^verbatim>\<open>process_sse_events\<close> returns exactly one event, a text
  event whose content is the concatenation of the texts in arrival order; when every
  text is empty it returns no event. Empty lines, lines that are not \<^verbatim>\<open>data:\<close>
  lines and payloads that \<^verbatim>\<open>json.loads\<close> rejects, between the frames, change nothing.
\<close>

theorem text_stream_concatenation:
  assumes "decoded py (iter_lines resp) = Some (fs @ [f])"
      and "iter_raises resp = None"
      and "list_all2 (is_text_frame py True) fs ts"
      and "is_text_frame py False f t"
  shows "process_sse_events py resp =
           \<lparr>events = (if concat ts @ t = [] then [] else [text_event (JStr (concat ts @ t))]),
            notices = []\<rparr>"
proof -
  have "run_lines py initial_state (iter_lines resp) None =
          run_frames py \<lparr>formatted_events = [], current_event = text_builder []\<rparr> (fs @ [f]) None"
    using assms(1) by (simp add: run_lines_decoded initial_state_def text_builder_def)
  also have "\<dots> =
      run_frames py \<lparr>formatted_events = [], current_event = text_builder (concat ts)\<rparr> [f] None"
    using run_frames_text_partial[OF assms(3), of "[]" "[]"] by simp
  also have "\<dots> =
      ((if concat ts @ t = [] then [] else [text_event (JStr (concat ts @ t))]), None)"
    by (simp only: run_frames.simps process_frame_text[OF assms(4)])
       (simp add: flush_def text_builder_def)
  finally show ?thesis
    using assms(2) by (simp add: process_sse_events_def)
qed

theorem text_stream_concatenation_witness:
  "decoded sample_python (iter_lines \<lparr>iter_lines = search_lines, iter_raises = None\<rparr>) =
     Some ([text_frame ''Sea'' True] @ [text_frame ''rch results:'' False]) \<and>
   iter_raises \<lparr>iter_lines = search_lines, iter_raises = None\<rparr> = None \<and>
   list_all2 (is_text_frame sample_python True) [text_frame ''Sea'' True] [''Sea''] \<and>
   is_text_frame sample_python False (text_frame ''rch results:'' False) ''rch results:'' \<and>
   process_sse_events sample_python \<lparr>iter_lines = search_lines, iter_raises = None\<rparr> =
     \<lparr>events = [text_event (JStr ''Search results:'')], notices = []\<rparr>"
proof -
  have h1: "decoded sample_python (iter_lines \<lparr>iter_lines = search_lines, iter_raises = None\<rparr>) =
              Some ([text_frame ''Sea'' True] @ [text_frame ''rch results:'' False])"
    by (simp add: sample_python_def search_lines_def data_line_def sample_payloads_def)
  have h2: "iter_raises \<lparr>iter_lines = search_lines, iter_raises = None\<rparr> = None"
    by simp
  have h3: "list_all2 (is_text_frame sample_python True) [text_frame ''Sea'' True] [''Sea'']"
    by (simp add: is_text_frame_def text_frame_def frame_parts_def dict_get_def
                  is_text_part_def frame_partial_def)
  have h4: "is_text_frame sample_python False (text_frame ''rch results:'' False) ''rch results:''"
    by (simp add: is_text_frame_def text_frame_def frame_parts_def dict_get_def
                  is_text_part_def frame_partial_def)
  show ?thesis
    using h1 h2 h3 h4 text_stream_concatenation[OF h1 h2 h3 h4] by simp
qed

text \<open>
  Without the proviso the statement fails. In the stream of the two frames
  \<^verbatim>\<open>{"content":{"parts":[{"text":""}]},"partial":true}\<close> and
  \<^verbatim>\<open>{"content":{"parts":[{"text":""}]},"partial":false}\<close> each frame carries a text
  part and the last has \<^verbatim>\<open>partial\<close> false, and no event is returned, where one text
  event with the empty content was to be expected.
\<close>

theorem empty_text_stream_counterexample:
  "decoded sample_python empty_text_lines = Some [text_frame [] True, text_frame [] False] \<and>
   is_text_frame sample_python True (text_frame [] True) [] \<and>
   is_text_frame sample_python False (text_frame [] False) [] \<and>
   events (process_sse_events sample_python
             \<lparr>iter_lines = empty_text_lines, iter_raises = None\<rparr>) = [] \<and>
   events (process_sse_events sample_python
             \<lparr>iter_lines = empty_text_lines, iter_raises = None\<rparr>) \<noteq> [text_event (JStr [])]"
  by (simp add: sample_python_def empty_text_lines_def data_line_def sample_payloads_def
                is_text_frame_def text_frame_def frame_parts_def dict_get_def
                is_text_part_def frame_partial_def process_sse_events_def initial_state_def
                process_line_def process_frame_def process_part_def)

section \<open>Function calls and replacement of the builder\<close>

lemma process_part_call:
  assumes "is_call_part part fc"
  shows "process_part py cur part =
           Inr (Some (function_call_event (JObj fc) (dict_get fc ''name'' JNull)
                        (dict_get fc ''args'' JNull)))"
  using assms
  by (auto simp: is_call_part_def process_part_def split: json.splits)

lemma process_part_text_replaces:
  assumes "is_text_part py part t" and "t \<noteq> []" and "ev_type ev \<noteq> ''text''"
  shows "process_part py (Some ev) part = Inr (Some (text_event (JStr t)))"
  using assms
  by (auto simp: is_text_part_def process_part_def split: json.splits)

lemma process_part_text_empty:
  assumes "is_text_part py part []"
  shows "process_part py cur part = Inr cur"
  using assms
  by (auto simp: is_text_part_def process_part_def split: json.splits)

lemma process_frame_call:
  assumes "is_call_frame py partial f fc"
  shows "process_frame py st f =
           Inr (flush st (Some (function_call_event (JObj fc) (dict_get fc ''name'' JNull)
                                  (dict_get fc ''args'' JNull))) partial)"
proof -
  from assms obtain part where p: "frame_parts f = Some [part]" "is_call_part part fc"
      "frame_partial py f = partial"
    by (auto simp: is_call_frame_def split: option.splits list.splits)
  show ?thesis
    by (simp add: process_frame_parts[OF p(1)] process_part_call[OF p(2)] p(3))
qed

lemma process_frame_text_after:
  assumes "is_text_frame py False f t" and "current_event st = Some ev"
      and "ev_type ev \<noteq> ''text''"
  shows "process_frame py st f =
           Inr \<lparr>formatted_events =
                  formatted_events st @ [if t = [] then ev else text_event (JStr t)],
                current_event = None\<rparr>"
proof -
  from assms obtain part where p: "frame_parts f = Some [part]" "is_text_part py part t"
      "\<not> frame_partial py f"
    by (auto simp: is_text_frame_def split: option.splits list.splits)
  show ?thesis
  proof (cases "t = []")
    case True
    with p(2) have "process_part py (Some ev) part = Inr (Some ev)"
      by (simp add: process_part_text_empty)
    with True p(3) assms(2) show ?thesis
      by (simp add: process_frame_parts[OF p(1)] flush_def)
  next
    case False
    with p(2) assms(3) have "process_part py (Some ev) part = Inr (Some (text_event (JStr t)))"
      by (simp add: process_part_text_replaces)
    with False p(3) assms(2) show ?thesis
      by (simp add: process_frame_parts[OF p(1)] flush_def)
  qed
qed

text \<open>
  Claim C4 (amended). A part whose \<^verbatim>\<open>functionCall\<close> is a dict with at least one entry
  replaces the builder in progress by a fresh function-call builder, whatever the
  builder was, so that the discarded builder has no part in what is emitted later; a
  part with a text that is not empty, arriving while the builder is of another kind,
  replaces it by a text builder. Hence a function-call frame with \<^verbatim>\<open>partial\<close> true
  followed by a frame with one text part and \<^verbatim>\<open>partial\<close> false emits one event: the
  text event when the text is not empty, and the function-call event when it is empty
  (an empty text part is ignored).
\<close>

theorem call_and_text_replace_builder:
  "(is_call_part part fc \<longrightarrow>
      process_part py cur part =
        Inr (Some (function_call_event (JObj fc) (dict_get fc ''name'' JNull)
                     (dict_get fc ''args'' JNull))) \<and>
      process_parts py cur (part # parts) = process_parts py cur' (part # parts)) \<and>
   (is_text_part py part' t \<and> t \<noteq> [] \<and> ev_type ev \<noteq> ''text'' \<longrightarrow>
      process_part py (Some ev) part' = Inr (Some (text_event (JStr t)))) \<and>
   (decoded py ls = Some [f1, f2] \<and> is_call_frame py True f1 fc1 \<and>
    is_text_frame py False f2 t2 \<longrightarrow>
      run_lines py st ls fin =
        (formatted_events st @
           [if t2 = [] then function_call_event (JObj fc1) (dict_get fc1 ''name'' JNull)
                              (dict_get fc1 ''args'' JNull)
            else text_event (JStr t2)],
         fin))"
proof (intro conjI impI)
  assume "is_call_part part fc"
  then show "process_part py cur part =
        Inr (Some (function_call_event (JObj fc) (dict_get fc ''name'' JNull)
                     (dict_get fc ''args'' JNull)))"
    by (rule process_part_call)
next
  assume "is_call_part part fc"
  then show "process_parts py cur (part # parts) = process_parts py cur' (part # parts)"
    by (simp add: process_part_call)
next
  assume "is_text_part py part' t \<and> t \<noteq> [] \<and> ev_type ev \<noteq> ''text''"
  then show "process_part py (Some ev) part' = Inr (Some (text_event (JStr t)))"
    by (simp add: process_part_text_replaces)
next
  let ?call = "function_call_event (JObj fc1) (dict_get fc1 ''name'' JNull)
                 (dict_get fc1 ''args'' JNull)"
  assume a: "decoded py ls = Some [f1, f2] \<and> is_call_frame py True f1 fc1 \<and>
    is_text_frame py False f2 t2"
  have ty: "ev_type ?call \<noteq> ''text''"
    by (simp add: function_call_event_def)
  have "run_lines py st ls fin = run_frames py st [f1, f2] fin"
    using a by (simp add: run_lines_decoded)
  also have "\<dots> = run_frames py (st\<lparr>current_event := Some ?call\<rparr>) [f2] fin"
    using a process_frame_call[of py True f1 fc1 st] by (simp add: flush_def)
  also have "\<dots> =
      (formatted_events st @ [if t2 = [] then ?call else text_event (JStr t2)], fin)"
    using a process_frame_text_after[of py f2 t2 "st\<lparr>current_event := Some ?call\<rparr>" ?call] ty
    by simp
  finally show "run_lines py st ls fin =
      (formatted_events st @ [if t2 = [] then ?call else text_event (JStr t2)], fin)" .
qed

theorem call_and_text_replace_builder_witness:
  \<open>is_call_part (JObj [(''functionCall'', JObj sample_call)]) sample_call \<and>
   is_text_part sample_python (JObj [(''text'', JStr ''hi'')]) ''hi'' \<and>
   ''hi'' \<noteq> [] \<and>
   ev_type (video_list_event (JArr []) :: unit event) \<noteq> ''text'' \<and>
   decoded sample_python call_then_text_lines = Some [call_frame, text_frame ''hi'' False] \<and>
   is_call_frame sample_python True call_frame sample_call \<and>
   is_text_frame sample_python False (text_frame ''hi'' False) ''hi'' \<and>
   process_part sample_python (Some (text_event (JStr ''old'')))
       (JObj [(''functionCall'', JObj sample_call)]) =
     Inr (Some (function_call_event (JObj sample_call) (JStr ''search_youtube_videos'')
                  (JObj [(''query'', JStr ''cats'')]))) \<and>
   process_part sample_python (Some (video_list_event (JArr []))) (JObj [(''text'', JStr ''hi'')]) =
     Inr (Some (text_event (JStr ''hi''))) \<and>
   run_lines sample_python initial_state call_then_text_lines None =
     ([text_event (JStr ''hi'')], None)\<close>
proof -
  have h1: "is_call_part (JObj [(''functionCall'', JObj sample_call)]) sample_call"
    by (simp add: is_call_part_def dict_get_def sample_call_def)
  have h2: "is_text_part sample_python (JObj [(''text'', JStr ''hi'')]) ''hi''"
      "ev_type (video_list_event (JArr []) :: unit event) \<noteq> ''text''"
    by (simp_all add: is_text_part_def dict_get_def video_list_event_def)
  have h3: "decoded sample_python call_then_text_lines = Some [call_frame, text_frame ''hi'' False]"
      "is_call_frame sample_python True call_frame sample_call"
      "is_text_frame sample_python False (text_frame ''hi'' False) ''hi''"
    by (simp_all add: sample_python_def call_then_text_lines_def data_line_def sample_payloads_def
                  is_call_frame_def is_call_part_def call_frame_def sample_call_def
                  is_text_frame_def text_frame_def frame_parts_def dict_get_def
                  is_text_part_def frame_partial_def)
  have d: "dict_get sample_call ''name'' JNull = JStr ''search_youtube_videos''"
      "dict_get sample_call ''args'' JNull = JObj [(''query'', JStr ''cats'')]"
    by (simp_all add: dict_get_def sample_call_def)
  show ?thesis
    using h1 h2 h3
      call_and_text_replace_builder[of "JObj [(''functionCall'', JObj sample_call)]" sample_call
        sample_python "Some (text_event (JStr ''old''))" "[]" None
        "JObj [(''text'', JStr ''hi'')]" "''hi''" "video_list_event (JArr [])"
        call_then_text_lines call_frame "text_frame ''hi'' False" sample_call "''hi''"
        initial_state None]
    by (simp add: initial_state_def d)
qed

text \<open>
  Without the proviso on the text the statement fails: after the function-call frame
  with \<^verbatim>\<open>partial\<close> true, the frame \<^verbatim>\<open>{"content":{"parts":[{"text":""}]},"partial":false}\<close>
  leaves the function-call builder in place and completes it, so that the function-call
  event is emitted and no text event is.
\<close>

theorem call_then_empty_text_counterexample:
  \<open>decoded sample_python call_then_empty_text_lines = Some [call_frame, text_frame [] False] \<and>
   is_call_frame sample_python True call_frame sample_call \<and>
   is_text_frame sample_python False (text_frame [] False) [] \<and>
   events (process_sse_events sample_python
             \<lparr>iter_lines = call_then_empty_text_lines, iter_raises = None\<rparr>) =
     [function_call_event (JObj sample_call) (JStr ''search_youtube_videos'')
        (JObj [(''query'', JStr ''cats'')])] \<and>
   events (process_sse_events sample_python
             \<lparr>iter_lines = call_then_empty_text_lines, iter_raises = None\<rparr>) \<noteq>
     [text_event (JStr [])]\<close>
  by (simp add: sample_python_def call_then_empty_text_lines_def data_line_def sample_payloads_def
                is_call_frame_def is_call_part_def call_frame_def sample_call_def
                is_text_frame_def text_frame_def frame_parts_def dict_get_def
                is_text_part_def frame_partial_def process_sse_events_def initial_state_def
                process_line_def process_frame_def process_part_def function_call_event_def
                text_event_def)

section \<open>Malformed payloads\<close>

lemma process_line_data:
  "process_line py st (data_line payload) =
     (case loads py payload of
        Inl e \<Rightarrow> if e = JSONDecodeError then Inr st else Inl e
      | Inr event_data \<Rightarrow> process_frame py st event_data)"
  by (simp add: process_line_def data_line_def)

lemma run_lines_skip:
  assumes "\<And>s. process_line py s line = Inr s"
  shows "run_lines py st (before @ line # rest) fin = run_lines py st (before @ rest) fin"
proof (induction before arbitrary: st)
  case Nil
  from assms show ?case by simp
next
  case (Cons l ls)
  then show ?case by (simp split: sum.splits)
qed

lemma not_deep_payload:
  assumes "length s \<noteq> 100000"
  shows "s \<noteq> deep_payload"
  using assms by (auto simp: deep_payload_def)

text \<open>
  Claim C5 (amended). A frame whose payload \<^verbatim>\<open>json.loads\<close> rejects with
  \<^verbatim>\<open>JSONDecodeError\<close> is skipped: the state after the line is the state before it,
  nothing is emitted, the loop goes on, and the result of the whole stream is the result
  of the stream without that line. A payload on which \<^verbatim>\<open>json.loads\<close> raises another
  exception is not skipped: the loop is left at that line, the events completed before
  it are returned, the error is shown and the later frames are lost. In particular a
  stream of one broken frame (\<^verbatim>\<open>{bad\<close>) followed by one valid frame with the single
  text part \<^verbatim>\<open>hi\<close> and \<^verbatim>\<open>partial\<close> false returns exactly one text event, with
  content \<^verbatim>\<open>hi\<close>, and shows no error.
\<close>

theorem malformed_frame_skipped:
  "(loads py payload = Inl JSONDecodeError \<longrightarrow>
      process_line py st (data_line payload) = Inr st \<and>
      run_lines py st (before @ data_line payload # rest) fin =
        run_lines py st (before @ rest) fin) \<and>
   (loads py payload' = Inl e \<and> e \<noteq> JSONDecodeError \<longrightarrow>
      run_lines py st (data_line payload' # rest) fin = (formatted_events st, Some e) \<and>
      process_sse_events py \<lparr>iter_lines = data_line payload' # rest, iter_raises = fin\<rparr> =
        \<lparr>events = [], notices = [SseError e]\<rparr>) \<and>
   (loads py ''{bad'' = Inl JSONDecodeError \<and> loads py p = Inr f \<and>
    is_text_frame py False f ''hi'' \<longrightarrow>
      process_sse_events py \<lparr>iter_lines = [data_line ''{bad'', data_line p], iter_raises = None\<rparr> =
        \<lparr>events = [\<lparr>ev_type = ''text'', ev_content = JStr ''hi'', ev_role = ''assistant'',
                    ev_name = None, ev_args = None\<rparr>],
         notices = []\<rparr>)"
proof (intro conjI impI)
  assume "loads py payload = Inl JSONDecodeError"
  then show "process_line py st (data_line payload) = Inr st"
    by (simp add: process_line_data)
next
  assume "loads py payload = Inl JSONDecodeError"
  then show "run_lines py st (before @ data_line payload # rest) fin =
        run_lines py st (before @ rest) fin"
    by (intro run_lines_skip) (simp add: process_line_data)
next
  assume "loads py payload' = Inl e \<and> e \<noteq> JSONDecodeError"
  then show "run_lines py st (data_line payload' # rest) fin = (formatted_events st, Some e)"
    by (simp add: process_line_data)
next
  assume "loads py payload' = Inl e \<and> e \<noteq> JSONDecodeError"
  then show "process_sse_events py \<lparr>iter_lines = data_line payload' # rest, iter_raises = fin\<rparr> =
        \<lparr>events = [], notices = [SseError e]\<rparr>"
    by (simp add: process_sse_events_def initial_state_def process_line_data)
next
  assume a: "loads py ''{bad'' = Inl JSONDecodeError \<and> loads py p = Inr f \<and>
    is_text_frame py False f ''hi''"
  then have "process_frame py \<lparr>formatted_events = [], current_event = None\<rparr> f =
      Inr \<lparr>formatted_events = [text_event (JStr ''hi'')], current_event = None\<rparr>"
    using process_frame_text[of py False f "''hi''" "[]" "[]"]
    by (simp add: flush_def text_builder_def)
  with a show "process_sse_events py
        \<lparr>iter_lines = [data_line ''{bad'', data_line p], iter_raises = None\<rparr> =
        \<lparr>events = [\<lparr>ev_type = ''text'', ev_content = JStr ''hi'', ev_role = ''assistant'',
                    ev_name = None, ev_args = None\<rparr>],
         notices = []\<rparr>"
    by (simp add: process_sse_events_def initial_state_def process_line_data text_builder_def
                  text_event_def)
qed

theorem malformed_frame_skipped_witness:
  \<open>loads sample_python ''{bad'' = Inl JSONDecodeError \<and>
   loads sample_python ''{"content":{"parts":[{"text":"hi"}]},"partial":false}'' =
     Inr (text_frame ''hi'' False) \<and>
   is_text_frame sample_python False (text_frame ''hi'' False) ''hi'' \<and>
   loads deep_python deep_payload = Inl RecursionError \<and>
   RecursionError \<noteq> JSONDecodeError \<and>
   process_line sample_python open_state (data_line ''{bad'') = Inr open_state \<and>
   process_sse_events sample_python \<lparr>iter_lines = broken_then_hi_lines, iter_raises = None\<rparr> =
     \<lparr>events = [\<lparr>ev_type = ''text'', ev_content = JStr ''hi'', ev_role = ''assistant'',
                 ev_name = None, ev_args = None\<rparr>],
      notices = []\<rparr> \<and>
   run_lines deep_python open_state (data_line deep_payload # search_lines) None =
     ([], Some RecursionError)\<close>
proof -
  have h1: "loads sample_python ''{bad'' = Inl JSONDecodeError"
    by (simp add: sample_python_def sample_payloads_def)
  have h2: \<open>loads sample_python ''{"content":{"parts":[{"text":"hi"}]},"partial":false}'' =
              Inr (text_frame ''hi'' False)\<close>
    by (simp add: sample_python_def sample_payloads_def)
  have h3: "is_text_frame sample_python False (text_frame ''hi'' False) ''hi''"
    by (simp add: is_text_frame_def text_frame_def frame_parts_def dict_get_def
                  is_text_part_def frame_partial_def)
  have h4: "loads deep_python deep_payload = Inl RecursionError"
    by (simp add: deep_python_def)
  have h5: "RecursionError \<noteq> JSONDecodeError"
    by simp
  show ?thesis
    using h1 h2 h3 h4 h5
      malformed_frame_skipped[where py = sample_python and payload = "''{bad''"
        and st = open_state and before = "[]" and rest = "[]" and fin = None
        and p = \<open>''{"content":{"parts":[{"text":"hi"}]},"partial":false}''\<close>
        and f = "text_frame ''hi'' False"]
      malformed_frame_skipped[where py = deep_python and st = open_state
        and payload' = deep_payload and e = RecursionError and rest = search_lines
        and fin = None]
    by (simp add: broken_then_hi_lines_def open_state_def)
qed

text \<open>
  Not every payload that fails to parse is skipped. On the payload of 100000 opening
  brackets \<^verbatim>\<open>json.loads\<close> raises \<^verbatim>\<open>RecursionError\<close>, which the handler of line
  92 does not catch: the stream is left at line 94, an error is shown, and the valid
  frame \<^verbatim>\<open>hi\<close> that follows, which alone gives one text event, is lost.
\<close>

theorem deep_payload_counterexample:
  \<open>loads deep_python deep_payload = Inl RecursionError \<and>
   process_sse_events deep_python \<lparr>iter_lines = deep_lines, iter_raises = None\<rparr> =
     \<lparr>events = [], notices = [SseError RecursionError]\<rparr> \<and>
   process_sse_events deep_python \<lparr>iter_lines = tl deep_lines, iter_raises = None\<rparr> =
     \<lparr>events = [\<lparr>ev_type = ''text'', ev_content = JStr ''hi'', ev_role = ''assistant'',
                 ev_name = None, ev_args = None\<rparr>],
      notices = []\<rparr>\<close>
proof -
  have d: "loads deep_python deep_payload = Inl RecursionError"
    by (simp add: deep_python_def)
  have n: \<open>''{"content":{"parts":[{"text":"hi"}]},"partial":false}'' \<noteq> deep_payload\<close>
    by (rule not_deep_payload) simp
  have h: \<open>loads deep_python ''{"content":{"parts":[{"text":"hi"}]},"partial":false}'' =
             Inr (text_frame ''hi'' False)\<close>
    using n by (simp add: deep_python_def sample_python_def sample_payloads_def)
  have f: "process_frame deep_python \<lparr>formatted_events = [], current_event = None\<rparr>
             (text_frame ''hi'' False) =
           Inr \<lparr>formatted_events = [\<lparr>ev_type = ''text'', ev_content = JStr ''hi'',
                                      ev_role = ''assistant'', ev_name = None, ev_args = None\<rparr>],
                current_event = None\<rparr>"
    by (simp add: text_frame_def process_frame_def process_part_def dict_get_def text_event_def)
  show ?thesis
    using d h f
    by (simp add: process_sse_events_def initial_state_def deep_lines_def process_line_data)
qed

section \<open>Video search responses\<close>








section \<open>Streams that end with an open builder\<close>

lemma process_frame_partial:
  assumes "frame_partial py f" and "process_frame py st f = Inr st'"
  shows "formatted_events st' = formatted_events st"
  using assms
  by (auto simp: process_frame_def frame_partial_def
           split: json.splits sum.splits if_splits option.splits)

lemma process_line_keeps_open:
  assumes "keeps_open py line" and "process_line py st line = Inr st'"
  shows "formatted_events st' = formatted_events st"
  using assms
  by (auto simp: keeps_open_def process_line_def
           split: raw_line.splits if_splits sum.splits dest: process_frame_partial)

lemma run_lines_keeps_open:
  assumes "list_all (keeps_open py) ls"
  shows "fst (run_lines py st ls fin) = formatted_events st"
  using assms
proof (induction ls arbitrary: st)
  case Nil
  show ?case by simp
next
  case (Cons l ls)
  show ?case
  proof (cases "process_line py st l")
    case (Inl e)
    then show ?thesis by simp
  next
    case (Inr st')
    with Cons show ?thesis
      by (simp add: process_line_keeps_open[of py l st st'])
  qed
qed

lemma run_lines_open_tail:
  assumes "list_all (keeps_open py) tail"
  shows "fst (run_lines py st (ls @ tail) fin) = fst (run_lines py st ls fin')"
proof (induction ls arbitrary: st)
  case Nil
  from assms show ?case by (simp add: run_lines_keeps_open)
next
  case (Cons l ls)
  then show ?case by (simp split: sum.splits)
qed

lemma events_process_sse_events:
  "events (process_sse_events py resp) =
     fst (run_lines py initial_state (iter_lines resp) (iter_raises resp))"
  by (simp add: process_sse_events_def split: prod.splits option.splits)

text \<open>
  Claim C7. When a stream ends, normally or by a failure of the transport, after lines none
  of which completes an event (every frame among them has \<^verbatim>\<open>partial\<close> true), what has
  been accumulated by these lines is dropped: the events returned are the events of the
  stream cut before these lines, and the builder left open is not among them.
\<close>

theorem open_builder_dropped:
  assumes "list_all (keeps_open py) tail"
  shows "events (process_sse_events py \<lparr>iter_lines = ls @ tail, iter_raises = fin\<rparr>) =
         events (process_sse_events py \<lparr>iter_lines = ls, iter_raises = None\<rparr>)"
proof -
  have "fst (run_lines py initial_state (ls @ tail) fin) =
        fst (run_lines py initial_state ls None)"
    using assms by (rule run_lines_open_tail)
  then show ?thesis
    by (simp add: events_process_sse_events)
qed

theorem open_builder_dropped_witness:
  \<open>list_all (keeps_open sample_python)
     [data_line ''{"content":{"parts":[{"text":"Sea"}]},"partial":true}''] \<and>
   events (process_sse_events sample_python
             \<lparr>iter_lines = hi_then_open_lines, iter_raises = None\<rparr>) =
     [text_event (JStr ''hi'')]\<close>
proof -
  have h: \<open>list_all (keeps_open sample_python)
             [data_line ''{"content":{"parts":[{"text":"Sea"}]},"partial":true}'']\<close>
    by (simp add: keeps_open_def data_line_def sample_python_def sample_payloads_def
                  text_frame_def frame_partial_def dict_get_def)
  have e: \<open>events (process_sse_events sample_python
             \<lparr>iter_lines = [data_line ''{"content":{"parts":[{"text":"hi"}]},"partial":false}''],
              iter_raises = None\<rparr>) = [text_event (JStr ''hi'')]\<close>
    by (simp add: sample_python_def data_line_def sample_payloads_def
                  text_frame_def dict_get_def process_sse_events_def initial_state_def
                  process_line_def process_frame_def process_part_def)
  show ?thesis
    using h e
      open_builder_dropped[OF h,
        of \<open>[data_line ''{"content":{"parts":[{"text":"hi"}]},"partial":false}'']\<close> None]
    by (simp add: hi_then_open_lines_def)
qed

section \<open>Frames without parts\<close>

text \<open>
  Claim C9. A frame whose \<^verbatim>\<open>content.parts\<close> is absent or empty leaves the state of the
  classifier as it is: no builder is created, extended or completed. This holds
  whatever \<^verbatim>\<open>partial\<close> is, so that an open builder stays open even when such a frame
  has \<^verbatim>\<open>partial\<close> false, and the rest of the stream is processed as if the frame had
  not been there.
\<close>

theorem frame_without_parts_ignored:
  assumes "no_parts py f"
  shows "process_frame py st f = Inr st \<and>
         (loads py payload = Inr f \<longrightarrow>
            run_lines py st (before @ data_line payload # rest) fin =
              run_lines py st (before @ rest) fin)"
proof -
  from assms have same: "process_frame py s f = Inr s" for s
    by (auto simp: no_parts_def process_frame_def split: json.splits)
  have "run_lines py st (before @ data_line payload # rest) fin =
      run_lines py st (before @ rest) fin" if "loads py payload = Inr f"
    using that by (intro run_lines_skip) (simp add: process_line_data same)
  with same show ?thesis by simp
qed

theorem frame_without_parts_ignored_witness:
  "no_parts sample_python empty_frame \<and>
   \<not> frame_partial sample_python empty_frame \<and>
   current_event open_state = Some (text_event (JStr ''Sea'')) \<and>
   loads sample_python empty_payload = Inr empty_frame \<and>
   process_frame sample_python open_state empty_frame = Inr open_state \<and>
   run_lines sample_python initial_state (search_lines @ [data_line empty_payload]) None =
     run_lines sample_python initial_state search_lines None"
proof -
  have h: "no_parts sample_python empty_frame"
    by (simp add: no_parts_def empty_frame_def dict_get_def)
  have p: "\<not> frame_partial sample_python empty_frame"
    by (simp add: frame_partial_def empty_frame_def dict_get_def)
  have l: "loads sample_python empty_payload = Inr empty_frame"
    by (simp add: sample_python_def empty_payload_def sample_payloads_def)
  show ?thesis
    using h p l
      frame_without_parts_ignored[OF h, where st = open_state and payload = empty_payload
        and before = "[]" and rest = "[]" and fin = None]
      frame_without_parts_ignored[OF h, where st = initial_state and payload = empty_payload
        and before = search_lines and rest = "[]" and fin = None]
    by (simp add: open_state_def)
qed

section \<open>Failing transport\<close>







section \<open>The keys of a session\<close>

text \<open>
  Claim C3. The two spellings of a key are not read as one key, so that a session that
  carries \<^verbatim>\<open>user_id\<close> and a session that carries \<^verbatim>\<open>userId\<close> do not resolve
  alike: the header reads \<^verbatim>\<open>app_name\<close> and \<^verbatim>\<open>user_id\<close> (line 278 to 280) and the
  send subscripts \<^verbatim>\<open>appName\<close> and \<^verbatim>\<open>userId\<close> of the same session (line 338). Of
  two sessions that differ only in holding the user under \<^verbatim>\<open>user_id\<close> or under
  \<^verbatim>\<open>userId\<close>, the first shows its user and cannot send a message (the subscript
  \<^verbatim>\<open>session['userId']\<close> raises \<^verbatim>\<open>KeyError\<close>); the second posts the message for
  its user and shows \<^verbatim>\<open>None\<close> as user.
\<close>

theorem session_spelling_divergence:
  "session_header epoch_clock snake_session =
     Inr \<lparr>shown_id = JStr ''s1'', shown_app = JStr ''agent'', shown_user = JStr ''user123'',
          shown_last_update = ''1970-01-01 00:00''\<rparr> \<and>
   session_header epoch_clock camel_session =
     Inr \<lparr>shown_id = JStr ''s1'', shown_app = JStr ''agent'', shown_user = JNull,
          shown_last_update = ''1970-01-01 00:00''\<rparr> \<and>
   chat_request sample_python epoch_clock snake_session ''hello'' = Inl KeyError \<and>
   chat_request sample_python epoch_clock camel_session ''hello'' =
     Inr (Some (JObj [(''app_name'', JStr ''agent''),
                      (''user_id'', JStr ''user123''),
                      (''session_id'', JStr ''s1''),
                      (''new_message'',
                         JObj [(''parts'', JArr [JObj [(''text'', JStr ''hello'')]]),
                               (''role'', JStr ''user'')]),
                      (''streaming'', JBool True)]))"
proof -
  have h1: "session_header epoch_clock snake_session =
     Inr \<lparr>shown_id = JStr ''s1'', shown_app = JStr ''agent'', shown_user = JStr ''user123'',
          shown_last_update = ''1970-01-01 00:00''\<rparr>"
    by (simp add: session_header_def snake_session_def snake_items_def dict_get_def
                  epoch_clock_def)
  have h2: "session_header epoch_clock camel_session =
     Inr \<lparr>shown_id = JStr ''s1'', shown_app = JStr ''agent'', shown_user = JNull,
          shown_last_update = ''1970-01-01 00:00''\<rparr>"
    by (simp add: session_header_def camel_session_def camel_items_def dict_get_def
                  epoch_clock_def)
  have a1: "send_message_args snake_session = Inl KeyError"
    by (simp add: send_message_args_def snake_session_def snake_items_def)
  have a2: "send_message_args camel_session =
              Inr (JStr ''agent'', JStr ''user123'', JStr ''s1'')"
    by (simp add: send_message_args_def camel_session_def camel_items_def)
  have t: "truthy sample_python snake_session" "truthy sample_python camel_session"
    by (simp_all add: snake_session_def camel_session_def snake_items_def camel_items_def)
  show ?thesis
    using h1 h2 a1 a2 t
    by (simp add: chat_request_def send_message_data_def)
qed

section \<open>Stored events\<close>

lemma load_part_video_only_if:
  assumes "load_part py event part = Inr ms" and "m \<in> set ms" and "msg_type m = ''video_list''"
  shows "truthy py (stored_videos part) \<and> msg_content m = stored_videos part \<and> ms = [m]"
proof -
  from assms(1) obtain pkv where part: "part = JObj pkv"
    by (cases part) (simp_all add: load_part_def)
  show ?thesis
  proof (cases "truthy py (dict_get pkv ''function_response'' JNull)")
    case False
    with assms part show ?thesis
      by (auto simp: load_part_def split: sum.splits if_splits)
  next
    case True
    with assms(1) part obtain rkv where fr: "dict_get pkv ''function_response'' JNull = JObj rkv"
      by (cases "dict_get pkv ''function_response'' JNull") (simp_all add: load_part_def)
    with assms(1) part True obtain skv where rs: "dict_get rkv ''response'' (JObj []) = JObj skv"
      by (cases "dict_get rkv ''response'' (JObj [])") (simp_all add: load_part_def)
    from assms part True fr rs show ?thesis
      by (auto simp: load_part_def stored_videos_def split: sum.splits if_splits)
  qed
qed

lemma load_part_with_videos:
  assumes "load_part py event part = Inr ms" and "truthy py (stored_videos part)"
  shows "ms = [video_message event part]"
proof -
  from assms(2) obtain pkv rkv skv where part: "part = JObj pkv"
      and fr: "dict_get pkv ''function_response'' JNull = JObj rkv"
      and rs: "dict_get rkv ''response'' (JObj []) = JObj skv"
      and vs: "truthy py (dict_get skv ''videos'' JNull)"
    by (auto simp: stored_videos_def split: json.splits)
  from fr rs vs have ne: "rkv \<noteq> []"
    by (auto simp: dict_get_def)
  from assms(1) part fr rs vs ne obtain ekv where ev: "event = JObj ekv"
    by (cases event) (simp_all add: load_part_def)
  from assms(1) part fr rs vs ne show ?thesis
    unfolding ev
    by (auto simp: load_part_def video_message_def stored_videos_def event_author_def dict_get_def
             split: option.splits)
qed

lemma load_part_videos_filter:
  assumes "load_part py event part = Inr ms"
  shows "filter (\<lambda>m. msg_type m = ''video_list'') ms =
           (if truthy py (stored_videos part) then [video_message event part] else [])"
proof (cases "truthy py (stored_videos part)")
  case True
  with assms have "ms = [video_message event part]"
    by (simp add: load_part_with_videos)
  with True show ?thesis
    by (simp add: video_message_def)
next
  case False
  with assms have "\<forall>m \<in> set ms. msg_type m \<noteq> ''video_list''"
    using load_part_video_only_if[of py event part ms] by blast
  with False show ?thesis
    by (simp add: filter_empty_conv)
qed

lemma load_parts_videos_filter:
  assumes "load_parts py event ps = Inr ms"
  shows "filter (\<lambda>m. msg_type m = ''video_list'') ms =
           map (video_message event) (filter (\<lambda>part. truthy py (stored_videos part)) ps)"
  using assms
proof (induction ps arbitrary: ms)
  case Nil
  then show ?case by simp
next
  case (Cons p ps)
  from Cons.prems obtain ms1 ms2 where s: "load_part py event p = Inr ms1"
      "load_parts py event ps = Inr ms2" "ms = ms1 @ ms2"
    by (auto split: sum.splits)
  from s(1) s(3) Cons.IH[OF s(2)] show ?case
    by (simp add: load_part_videos_filter)
qed

lemma load_parts_concat:
  assumes "list_all2 (\<lambda>part ms. load_part py event part = Inr ms) ps mss"
  shows "load_parts py event ps = Inr (concat mss)"
  using assms by (induction ps mss rule: list_all2_induct) simp_all

lemma load_events_concat:
  assumes "list_all2 (\<lambda>event ms. load_event py event = Inr ms) es mss"
  shows "load_events py es = Inr (concat mss)"
  using assms by (induction es mss rule: list_all2_induct) simp_all

lemma load_event_parts:
  assumes "frame_parts event = Some ps"
  shows "load_event py event = load_parts py event ps"
proof -
  from assms obtain ekv ckv where ev: "event = JObj ekv"
      and c: "dict_get ekv ''content'' (JObj []) = JObj ckv"
      and p: "dict_get ckv ''parts'' JNull = JArr ps"
    by (auto simp: frame_parts_def split: json.splits)
  from p have ne: "ckv \<noteq> []"
    by (auto simp: dict_get_def)
  with c have c': "dict_get ekv ''content'' JNull = JObj ckv"
    by (auto simp: dict_get_def split: option.splits)
  from c c' p ne show ?thesis
    unfolding ev by (cases ps) (simp_all add: load_event_def)
qed

lemma load_event_videos_filter:
  assumes "load_event py event = Inr ms"
  shows "filter (\<lambda>m. msg_type m = ''video_list'') ms =
           map (video_message event)
             (filter (\<lambda>part. truthy py (stored_videos part)) (event_parts event))"
proof (cases "frame_parts event")
  case (Some ps)
  with assms show ?thesis
    by (simp add: load_event_parts event_parts_def load_parts_videos_filter)
next
  case None
  have "ms = []"
  proof (rule ccontr)
    assume ne: "ms \<noteq> []"
    from assms obtain ekv where ev: "event = JObj ekv"
      by (cases event) (simp_all add: load_event_def)
    let ?c = "dict_get ekv ''content'' JNull"
    from assms ne ev have tc: "truthy py ?c"
      by (auto simp: load_event_def split: if_splits)
    then have same: "dict_get ekv ''content'' (JObj []) = ?c"
      by (auto simp: dict_get_def split: option.splits)
    from assms ev tc same obtain ckv where c: "?c = JObj ckv"
      by (cases ?c) (auto simp: load_event_def)
    let ?parts = "dict_get ckv ''parts'' JNull"
    from assms ne ev tc same c have tp: "truthy py ?parts"
      by (auto simp: load_event_def split: if_splits)
    from assms ev tc same c tp obtain ps where it: "py_iter ?parts = Inr ps"
        and lp: "load_parts py event ps = Inr ms"
      by (auto simp: load_event_def split: sum.splits)
    from None ev same c have nl: "\<forall>xs. ?parts \<noteq> JArr xs"
      by (auto simp: frame_parts_def)
    from tp it nl obtain k qs where ps: "ps = JStr k # qs"
      by (cases ?parts; cases ps) auto
    from lp show False
      unfolding ps by (simp add: load_part_def split: sum.splits)
  qed
  with None show ?thesis
    by (simp add: event_parts_def)
qed

lemma load_events_videos_filter:
  assumes "load_events py es = Inr ms"
  shows "filter (\<lambda>m. msg_type m = ''video_list'') ms =
           concat (map (\<lambda>event. map (video_message event)
                      (filter (\<lambda>part. truthy py (stored_videos part)) (event_parts event))) es)"
  using assms
proof (induction es arbitrary: ms)
  case Nil
  then show ?case by simp
next
  case (Cons e es)
  from Cons.prems obtain ms1 ms2 where s: "load_event py e = Inr ms1"
      "load_events py es = Inr ms2" "ms = ms1 @ ms2"
    by (auto split: sum.splits)
  from s(3) Cons.IH[OF s(2)] load_event_videos_filter[OF s(1)] show ?case
    by simp
qed

lemma load_session_events:
  assumes "skv \<noteq> []" and "dict_get skv ''events'' (JArr []) = JArr es"
  shows "load_session py (Some (JObj skv)) old = load_events py es"
  using assms by (simp add: load_session_def)

text \<open>
  Claim C8. For a part of a stored event that carries a \<^verbatim>\<open>function_response\<close> (a dict
  with at least one entry, whose \<^verbatim>\<open>response\<close> is absent or a dict),
  \<^verbatim>\<open>load_session\<close> appends a video-list message exactly when \<^verbatim>\<open>response.videos\<close>
  is present and not empty, and its content is that value; with \<^verbatim>\<open>videos\<close> empty or
  absent the part appends nothing. The name of the function is not read: changing it
  changes nothing. The rule is applied to every part of every event of the session, in
  order: the video-list messages that \<^verbatim>\<open>load_session\<close> returns are the messages of
  the parts that hold videos, event after event and part after part, and the whole list
  returned is the concatenation of what each part of each event appends.
\<close>

theorem stored_video_list_recognition:
  "(dict_get pkv ''function_response'' JNull = JObj rkv \<and> rkv \<noteq> [] \<and>
    dict_get rkv ''response'' (JObj []) = JObj rsp \<longrightarrow>
      load_part py (JObj ekv) (JObj pkv) =
        (if truthy py (dict_get rsp ''videos'' JNull) then
           Inr [\<lparr>msg_type = ''video_list'', msg_content = dict_get rsp ''videos'' JNull,
                 msg_role = dict_get ekv ''author'' (JStr ''assistant''),
                 msg_timestamp = dict_get ekv ''timestamp'' (JInt 0)\<rparr>]
         else Inr [])) \<and>
   load_part py event (videos_part nm videos) = load_part py event (videos_part nm' videos) \<and>
   (skv \<noteq> [] \<and> dict_get skv ''events'' (JArr []) = JArr es \<and>
    load_session py (Some (JObj skv)) old = Inr ms \<longrightarrow>
      filter (\<lambda>m. msg_type m = ''video_list'') ms =
        concat (map (\<lambda>event. map (video_message event)
                   (filter (\<lambda>part. truthy py (stored_videos part)) (event_parts event))) es)) \<and>
   (skv \<noteq> [] \<and> dict_get skv ''events'' (JArr []) = JArr es \<and>
    list_all2 (\<lambda>event ms. load_event py event = Inr ms) es mss \<longrightarrow>
      load_session py (Some (JObj skv)) old = Inr (concat mss)) \<and>
   (frame_parts stored = Some ps \<and>
    list_all2 (\<lambda>part ms. load_part py stored part = Inr ms) ps pmss \<longrightarrow>
      load_event py stored = Inr (concat pmss))"
proof (intro conjI impI)
  assume "dict_get pkv ''function_response'' JNull = JObj rkv \<and> rkv \<noteq> [] \<and>
    dict_get rkv ''response'' (JObj []) = JObj rsp"
  then show "load_part py (JObj ekv) (JObj pkv) =
        (if truthy py (dict_get rsp ''videos'' JNull) then
           Inr [\<lparr>msg_type = ''video_list'', msg_content = dict_get rsp ''videos'' JNull,
                 msg_role = dict_get ekv ''author'' (JStr ''assistant''),
                 msg_timestamp = dict_get ekv ''timestamp'' (JInt 0)\<rparr>]
         else Inr [])"
    by (simp add: load_part_def)
next
  show "load_part py event (videos_part nm videos) = load_part py event (videos_part nm' videos)"
    by (simp add: load_part_def videos_part_def dict_get_def)
next
  assume a: "skv \<noteq> [] \<and> dict_get skv ''events'' (JArr []) = JArr es \<and>
    load_session py (Some (JObj skv)) old = Inr ms"
  then have "load_events py es = Inr ms"
    using load_session_events[of skv es py old] by simp
  then show "filter (\<lambda>m. msg_type m = ''video_list'') ms =
        concat (map (\<lambda>event. map (video_message event)
                   (filter (\<lambda>part. truthy py (stored_videos part)) (event_parts event))) es)"
    by (rule load_events_videos_filter)
next
  assume a: "skv \<noteq> [] \<and> dict_get skv ''events'' (JArr []) = JArr es \<and>
    list_all2 (\<lambda>event ms. load_event py event = Inr ms) es mss"
  then have "load_events py es = Inr (concat mss)"
    by (simp add: load_events_concat)
  with a show "load_session py (Some (JObj skv)) old = Inr (concat mss)"
    using load_session_events[of skv es py old] by simp
next
  assume a: "frame_parts stored = Some ps \<and>
    list_all2 (\<lambda>part ms. load_part py stored part = Inr ms) ps pmss"
  then show "load_event py stored = Inr (concat pmss)"
    by (simp add: load_event_parts load_parts_concat)
qed

theorem stored_video_list_recognition_witness:
  "dict_get [(''function_response'',
               JObj [(''name'', JStr ''other_tool''),
                     (''response'', JObj [(''videos'', sample_videos)])])]
     ''function_response'' JNull =
     JObj [(''name'', JStr ''other_tool''), (''response'', JObj [(''videos'', sample_videos)])] \<and>
   dict_get [(''name'', JStr ''other_tool''), (''response'', JObj [(''videos'', sample_videos)])]
     ''response'' (JObj []) = JObj [(''videos'', sample_videos)] \<and>
   dict_get [(''id'', JStr ''s1''),
             (''events'', JArr [stored_event, no_videos_event, authored_event])]
     ''events'' (JArr []) = JArr [stored_event, no_videos_event, authored_event] \<and>
   frame_parts stored_event =
     Some [videos_part (JStr ''other_tool'') sample_videos, JObj [(''text'', JStr ''hello'')]] \<and>
   load_part sample_python stored_event (videos_part (JStr ''other_tool'') sample_videos) =
     Inr [\<lparr>msg_type = ''video_list'', msg_content = sample_videos,
           msg_role = JStr ''assistant'', msg_timestamp = JInt 7\<rparr>] \<and>
   load_part sample_python stored_event (JObj [(''text'', JStr ''hello'')]) =
     Inr [\<lparr>msg_type = ''text'', msg_content = JStr ''hello'',
           msg_role = JStr ''unknown'', msg_timestamp = JInt 7\<rparr>] \<and>
   load_part sample_python no_videos_event (videos_part (JStr ''search_youtube_videos'') (JArr [])) =
     Inr [] \<and>
   load_event sample_python stored_event =
     Inr [\<lparr>msg_type = ''video_list'', msg_content = sample_videos,
           msg_role = JStr ''assistant'', msg_timestamp = JInt 7\<rparr>,
          \<lparr>msg_type = ''text'', msg_content = JStr ''hello'',
           msg_role = JStr ''unknown'', msg_timestamp = JInt 7\<rparr>] \<and>
   load_event sample_python no_videos_event = Inr [] \<and>
   load_event sample_python authored_event =
     Inr [\<lparr>msg_type = ''text'', msg_content = JStr ''find cats'',
           msg_role = JStr ''user'', msg_timestamp = JInt 0\<rparr>] \<and>
   load_session sample_python (Some stored_session) [] =
     Inr [\<lparr>msg_type = ''video_list'', msg_content = sample_videos,
           msg_role = JStr ''assistant'', msg_timestamp = JInt 7\<rparr>,
          \<lparr>msg_type = ''text'', msg_content = JStr ''hello'',
           msg_role = JStr ''unknown'', msg_timestamp = JInt 7\<rparr>,
          \<lparr>msg_type = ''text'', msg_content = JStr ''find cats'',
           msg_role = JStr ''user'', msg_timestamp = JInt 0\<rparr>] \<and>
   filter (\<lambda>m. msg_type m = ''video_list'')
     [\<lparr>msg_type = ''video_list'', msg_content = sample_videos,
       msg_role = JStr ''assistant'', msg_timestamp = JInt 7\<rparr>,
      \<lparr>msg_type = ''text'', msg_content = JStr ''hello'',
       msg_role = JStr ''unknown'', msg_timestamp = JInt 7\<rparr>,
      \<lparr>msg_type = ''text'', msg_content = JStr ''find cats'',
       msg_role = JStr ''user'', msg_timestamp = JInt (0::int)\<rparr> :: unit message] =
     concat (map (\<lambda>event. map (video_message event)
                (filter (\<lambda>part. truthy sample_python (stored_videos part)) (event_parts event)))
             [stored_event, no_videos_event, authored_event])"
proof -
  let ?rkv = "[(''name'', JStr ''other_tool''), (''response'', JObj [(''videos'', sample_videos)])]"
  let ?v = "\<lparr>msg_type = ''video_list'', msg_content = sample_videos,
             msg_role = JStr ''assistant'', msg_timestamp = JInt 7\<rparr>"
  let ?t = "\<lparr>msg_type = ''text'', msg_content = JStr ''hello'',
             msg_role = JStr ''unknown'', msg_timestamp = JInt (7::int)\<rparr> :: unit message"
  let ?u = "\<lparr>msg_type = ''text'', msg_content = JStr ''find cats'',
             msg_role = JStr ''user'', msg_timestamp = JInt (0::int)\<rparr> :: unit message"
  let ?skv = "[(''id'', JStr ''s1''),
               (''events'', JArr [stored_event, no_videos_event, authored_event])]"
  let ?hello = "JObj [(''text'', JStr ''hello'')] :: unit json"
  have h1: "dict_get [(''function_response'', JObj ?rkv)] ''function_response'' JNull = JObj ?rkv"
    by (simp add: dict_get_def)
  have h2: "dict_get ?rkv ''response'' (JObj []) = JObj [(''videos'', sample_videos)]"
    by (simp add: dict_get_def)
  have h3: "dict_get ?skv ''events'' (JArr []) = JArr [stored_event, no_videos_event, authored_event]"
    by (simp add: dict_get_def)
  have h4: "frame_parts stored_event =
              Some [videos_part (JStr ''other_tool'') sample_videos, ?hello]"
    by (simp add: frame_parts_def stored_event_def dict_get_def)
  have p1: "load_part sample_python stored_event (videos_part (JStr ''other_tool'') sample_videos) =
              Inr [?v]"
    by (simp add: load_part_def videos_part_def stored_event_def sample_videos_def dict_get_def)
  have p2: "load_part sample_python stored_event ?hello = Inr [?t]"
    by (simp add: load_part_def stored_event_def dict_get_def)
  have p3: "load_part sample_python no_videos_event
              (videos_part (JStr ''search_youtube_videos'') (JArr [])) = Inr []"
    by (simp add: load_part_def videos_part_def dict_get_def)
  have e1: "load_event sample_python stored_event = Inr [?v, ?t]"
    using h4 p1 p2
      stored_video_list_recognition[of "[(''function_response'', JObj ?rkv)]" ?rkv
        "[(''videos'', sample_videos)]" sample_python "[]" stored_event "JStr ''other_tool''"
        sample_videos "JStr ''search_youtube_videos''" ?skv
        "[stored_event, no_videos_event, authored_event]" "[]" "[?v, ?t, ?u]" "[]"
        stored_event "[videos_part (JStr ''other_tool'') sample_videos, ?hello]" "[[?v], [?t]]"]
    by simp
  have e2: "load_event sample_python no_videos_event = Inr []"
    by (simp add: load_event_def load_part_def no_videos_event_def videos_part_def dict_get_def)
  have e3: "load_event sample_python authored_event = Inr [?u]"
    by (simp add: load_event_def load_part_def authored_event_def dict_get_def)
  have s: "load_session sample_python (Some stored_session) [] = Inr [?v, ?t, ?u]"
    using h3 e1 e2 e3
      stored_video_list_recognition[of "[(''function_response'', JObj ?rkv)]" ?rkv
        "[(''videos'', sample_videos)]" sample_python "[]" stored_event "JStr ''other_tool''"
        sample_videos "JStr ''search_youtube_videos''" ?skv
        "[stored_event, no_videos_event, authored_event]" "[]" "[?v, ?t, ?u]" "[[?v, ?t], [], [?u]]"
        stored_event "[videos_part (JStr ''other_tool'') sample_videos, ?hello]" "[[?v], [?t]]"]
    by (simp add: stored_session_def)
  have f: "filter (\<lambda>m. msg_type m = ''video_list'') [?v, ?t, ?u] =
     concat (map (\<lambda>event. map (video_message event)
                (filter (\<lambda>part. truthy sample_python (stored_videos part)) (event_parts event)))
             [stored_event, no_videos_event, authored_event])"
    using h3 s
      stored_video_list_recognition[of "[(''function_response'', JObj ?rkv)]" ?rkv
        "[(''videos'', sample_videos)]" sample_python "[]" stored_event "JStr ''other_tool''"
        sample_videos "JStr ''search_youtube_videos''" ?skv
        "[stored_event, no_videos_event, authored_event]" "[]" "[?v, ?t, ?u]" "[[?v, ?t], [], [?u]]"
        stored_event "[videos_part (JStr ''other_tool'') sample_videos, ?hello]" "[[?v], [?t]]"]
    by (simp add: stored_session_def)
  show ?thesis
    using h1 h2 h3 h4 p1 p2 p3 e1 e2 e3 s f by simp
qed

section \<open>Roles\<close>

lemma process_part_assistant:
  assumes "assistant_builder cur" and "process_part py cur part = Inr cur'"
  shows "assistant_builder cur'"
  using assms
  by (auto simp: process_part_def assistant_builder_def function_call_event_def
                 video_list_event_def text_event_def
           split: sum.splits if_splits option.splits)

lemma process_parts_assistant:
  assumes "assistant_builder cur" and "process_parts py cur ps = Inr cur'"
  shows "assistant_builder cur'"
  using assms
proof (induction ps arbitrary: cur)
  case Nil
  then show ?case by simp
next
  case (Cons p ps)
  then show ?case
    by (auto split: sum.splits dest: process_part_assistant)
qed

lemma process_frame_assistant:
  assumes "all_assistant st" and "process_frame py st f = Inr st'"
  shows "all_assistant st'"
proof (cases "\<exists>ps cur. process_parts py (current_event st) ps = Inr cur \<and>
          (st' = flush st cur True \<or> st' = flush st cur False)")
  case True
  then obtain ps cur where pc: "process_parts py (current_event st) ps = Inr cur"
      and st': "st' = flush st cur True \<or> st' = flush st cur False"
    by blast
  from assms(1) pc have "assistant_builder cur"
    by (auto simp: all_assistant_def dest: process_parts_assistant)
  with assms(1) st' show ?thesis
    by (auto simp: all_assistant_def flush_def assistant_builder_def split: option.splits)
next
  case False
  with assms(2) have "st' = st"
    by (auto simp: process_frame_def flush_def split: sum.splits if_splits option.splits)
  with assms(1) show ?thesis by simp
qed

lemma process_line_assistant:
  assumes "all_assistant st" and "process_line py st line = Inr st'"
  shows "all_assistant st'"
  using assms
  by (auto simp: process_line_def split: raw_line.splits if_splits sum.splits
           dest: process_frame_assistant)

lemma run_lines_assistant:
  assumes "all_assistant st"
  shows "list_all (\<lambda>ev. ev_role ev = ''assistant'') (fst (run_lines py st ls fin))"
  using assms
proof (induction ls arbitrary: st)
  case Nil
  then show ?case by (simp add: all_assistant_def)
next
  case (Cons l ls)
  show ?case
  proof (cases "process_line py st l")
    case (Inl e)
    with Cons.prems show ?thesis by (simp add: all_assistant_def)
  next
    case (Inr st')
    with Cons show ?thesis
      by (simp add: process_line_assistant[of st py l st'])
  qed
qed

lemma load_part_role:
  assumes "load_part py event part = Inr ms" and "m \<in> set ms"
  shows "(msg_type m = ''video_list'' \<or> msg_type m = ''text'') \<and>
         msg_role m =
           (case event_author event of
              Some a \<Rightarrow> a
            | None \<Rightarrow> if msg_type m = ''video_list'' then JStr ''assistant'' else JStr ''unknown'')"
proof -
  from assms obtain ekv where ev: "event = JObj ekv"
    by (cases event) (auto simp: load_part_def split: sum.splits if_splits)
  from assms show ?thesis
    unfolding ev
    by (auto simp: load_part_def event_author_def dict_get_def
             split: sum.splits if_splits option.splits)
qed

lemma load_parts_role:
  assumes "load_parts py event ps = Inr ms" and "m \<in> set ms"
  shows "(msg_type m = ''video_list'' \<or> msg_type m = ''text'') \<and>
         msg_role m =
           (case event_author event of
              Some a \<Rightarrow> a
            | None \<Rightarrow> if msg_type m = ''video_list'' then JStr ''assistant'' else JStr ''unknown'')"
  using assms
proof (induction ps arbitrary: ms)
  case Nil
  then show ?case by simp
next
  case (Cons p ps)
  from Cons.prems(1) obtain ms1 ms2 where s: "load_part py event p = Inr ms1"
      "load_parts py event ps = Inr ms2" "ms = ms1 @ ms2"
    by (auto split: sum.splits)
  with Cons.prems(2) consider "m \<in> set ms1" | "m \<in> set ms2" by auto
  then show ?case
  proof cases
    case 1
    with s(1) show ?thesis by (rule load_part_role)
  next
    case 2
    with s(2) show ?thesis by (rule Cons.IH)
  qed
qed

text \<open>
  Claim C10. Every event returned for a stream carries the role \<^verbatim>\<open>assistant\<close>, whatever
  the frames hold. A message built from a stored event is a video-list or a text
  message and carries as role the \<^verbatim>\<open>author\<close> of the event when the event has one;
  when it has none, the role is \<^verbatim>\<open>assistant\<close> for a video-list message and
  \<^verbatim>\<open>unknown\<close> for a text message.
\<close>

theorem role_assignment:
  "list_all (\<lambda>ev. ev_role ev = ''assistant'')
     (events (send_message py post app_name user_id session_id message)) \<and>
   list_all (\<lambda>ev. ev_role ev = ''assistant'') (events (process_sse_events py resp)) \<and>
   (load_event py event = Inr ms \<and> m \<in> set ms \<longrightarrow>
      (msg_type m = ''video_list'' \<or> msg_type m = ''text'') \<and>
      msg_role m =
        (case event_author event of
           Some a \<Rightarrow> a
         | None \<Rightarrow> if msg_type m = ''video_list'' then JStr ''assistant'' else JStr ''unknown''))"
proof (intro conjI impI)
  have init: "all_assistant initial_state"
    by (simp add: all_assistant_def initial_state_def assistant_builder_def)
  show streamed: "list_all (\<lambda>ev. ev_role ev = ''assistant'') (events (process_sse_events py r))"
    for r :: response
    by (simp add: events_process_sse_events run_lines_assistant[OF init])
  show "list_all (\<lambda>ev. ev_role ev = ''assistant'')
     (events (send_message py post app_name user_id session_id message))"
    using streamed
    by (auto simp: send_message_def make_api_request_def Let_def split: http.splits)
next
  assume a: "load_event py event = Inr ms \<and> m \<in> set ms"
  then have "\<exists>ps. load_parts py event ps = Inr ms"
    by (auto simp: load_event_def split: sum.splits if_splits)
  then obtain ps where "load_parts py event ps = Inr ms" ..
  with a have r: "(msg_type m = ''video_list'' \<or> msg_type m = ''text'') \<and>
      msg_role m =
        (case event_author event of
           Some a \<Rightarrow> a
         | None \<Rightarrow> if msg_type m = ''video_list'' then JStr ''assistant'' else JStr ''unknown'')"
    using load_parts_role[of py event ps ms m] by simp
  from r show "msg_type m = ''video_list'' \<or> msg_type m = ''text''" ..
  from r show "msg_role m =
        (case event_author event of
           Some a \<Rightarrow> a
         | None \<Rightarrow> if msg_type m = ''video_list'' then JStr ''assistant'' else JStr ''unknown'')" ..
qed

theorem role_assignment_witness:
  "load_event sample_python stored_event =
     Inr [\<lparr>msg_type = ''video_list'', msg_content = sample_videos,
           msg_role = JStr ''assistant'', msg_timestamp = JInt 7\<rparr>,
          \<lparr>msg_type = ''text'', msg_content = JStr ''hello'',
           msg_role = JStr ''unknown'', msg_timestamp = JInt 7\<rparr>] \<and>
   event_author stored_event = None \<and>
   msg_role \<lparr>msg_type = ''text'', msg_content = JStr ''hello'',
             msg_role = JStr ''unknown'', msg_timestamp = JInt 7\<rparr> =
     (case event_author stored_event of
        Some a \<Rightarrow> a
      | None \<Rightarrow> JStr ''unknown'') \<and>
   load_event sample_python authored_event =
     Inr [\<lparr>msg_type = ''text'', msg_content = JStr ''find cats'',
           msg_role = JStr ''user'', msg_timestamp = JInt 0\<rparr>] \<and>
   event_author authored_event = Some (JStr ''user'') \<and>
   list_all (\<lambda>ev. ev_role ev = ''assistant'')
     (events (process_sse_events sample_python broken_response))"
proof -
  let ?v = "\<lparr>msg_type = ''video_list'', msg_content = sample_videos,
             msg_role = JStr ''assistant'', msg_timestamp = JInt 7\<rparr>"
  let ?t = "\<lparr>msg_type = ''text'', msg_content = JStr ''hello'',
             msg_role = JStr ''unknown'', msg_timestamp = JInt (7::int)\<rparr> :: unit message"
  let ?u = "\<lparr>msg_type = ''text'', msg_content = JStr ''find cats'',
             msg_role = JStr ''user'', msg_timestamp = JInt (0::int)\<rparr> :: unit message"
  have h1: "load_event sample_python stored_event = Inr [?v, ?t]"
    by (simp add: load_event_def load_part_def stored_event_def videos_part_def
                  sample_videos_def dict_get_def)
  have h2: "?t \<in> set [?v, ?t]"
    by simp
  have h3: "event_author stored_event = None"
    by (simp add: event_author_def stored_event_def)
  have h4: "load_event sample_python authored_event = Inr [?u]"
    by (simp add: load_event_def load_part_def authored_event_def dict_get_def)
  have h5: "event_author authored_event = Some (JStr ''user'')"
    by (simp add: event_author_def authored_event_def)
  show ?thesis
    using h1 h2 h3 h4 h5
      role_assignment[of sample_python refusing_backend JNull JNull JNull "[]" broken_response
        stored_event "[?v, ?t]" ?t]
      role_assignment[of sample_python refusing_backend JNull JNull JNull "[]" broken_response
        authored_event "[?u]" ?u]
    by simp
qed

end
